theory Spec2Isabelle
  imports Main "HOL-Library.Word" "HOL-Library.Sublist"
begin

unbundle bit_operations_syntax

section \<open>Errors\<close>

text \<open>
  Every \<^verbatim>\<open>throw\<close> of the client (\<^verbatim>\<open>src/store/index.ts\<close>, class
  \<^verbatim>\<open>HydraGrpcWebClient\<close>) and every library exception the claims depend on is a
  value of this type. \<open>GrpcCallError e\<close> is the \<^verbatim>\<open>enhancedError\<close> that the outer
  \<^verbatim>\<open>catch\<close> of \<^verbatim>\<open>grpcCall\<close> builds around the caught error \<open>e\<close> (its
  \<^verbatim>\<open>cause\<close>); the diagnosis text it carries is log output only and is not modelled.
\<close>

datatype error =
    RangeError
  | BodyAlreadyRead
  | EncodeError
  | FetchError string
  | DecodeFailed string
  | NoGrpcHeaders nat
  | GrpcStatusError string "string option"
  | GrpcCallError error
  | NoFeeEstimate
  | HttpNotOk nat
  | NoBodyReader
  | StreamReadError string

section \<open>Frame codec\<close>

type_synonym byte = "8 word"

text \<open>
  \<^verbatim>\<open>DataView.setUint8(off, v)\<close> and \<^verbatim>\<open>DataView.setUint32(off, v, false)\<close>:
  a write outside the buffer raises \<^verbatim>\<open>RangeError\<close>; the 32-bit value is stored
  most significant byte first. The value written by the client is
  \<^verbatim>\<open>messageBytes.length\<close>, converted by the platform to an unsigned 32-bit integer.
\<close>

definition setUint8 :: "byte list \<Rightarrow> nat \<Rightarrow> byte \<Rightarrow> error + byte list" where
  "setUint8 buf off v = (if off + 1 \<le> length buf then Inr (buf[off := v]) else Inl RangeError)"

definition setUint32 :: "byte list \<Rightarrow> nat \<Rightarrow> 32 word \<Rightarrow> error + byte list" where
  "setUint32 buf off v =
     (if off + 4 \<le> length buf
      then Inr (buf[off := ucast (drop_bit 24 v), off + 1 := ucast (drop_bit 16 v),
                    off + 2 := ucast (drop_bit 8 v), off + 3 := ucast v])
      else Inl RangeError)"

text \<open>\<^verbatim>\<open>typedArray.set(source, offset)\<close>: copies \<open>source\<close> into the array at \<open>offset\<close>.\<close>

definition set_bytes :: "byte list \<Rightarrow> byte list \<Rightarrow> nat \<Rightarrow> error + byte list" where
  "set_bytes buf src off =
     (if off + length src \<le> length buf
      then Inr (take off buf @ src @ drop (off + length src) buf)
      else Inl RangeError)"

text \<open>
  The framing of \<^verbatim>\<open>grpcCall\<close> (lines 75-83): a zeroed buffer of \<open>5 + n\<close> bytes,
  the compression flag 0 at offset 0, the length at offset 1, the message at offset 5.
\<close>

definition encodeFrame :: "byte list \<Rightarrow> error + byte list" where
  "encodeFrame messageBytes =
     (let frame = replicate (5 + length messageBytes) (0 :: byte) in
      case setUint8 frame 0 0 of
        Inl e \<Rightarrow> Inl e
      | Inr frame1 \<Rightarrow>
          (case setUint32 frame1 1 (of_nat (length messageBytes)) of
             Inl e \<Rightarrow> Inl e
           | Inr frame2 \<Rightarrow> set_bytes frame2 messageBytes 5))"

text \<open>
  \<^verbatim>\<open>new Uint8Array(buffer, byteOffset)\<close> on an \<^verbatim>\<open>ArrayBuffer\<close>: a view of the
  bytes from \<open>byteOffset\<close> to the end; an offset beyond the end raises
  \<^verbatim>\<open>RangeError\<close>. On a typed array as first argument the constructor copies the array
  and takes no offset: that is the call the stream reader makes on each chunk.
\<close>

definition Uint8Array_of_buffer :: "byte list \<Rightarrow> nat \<Rightarrow> error + byte list" where
  "Uint8Array_of_buffer buffer byteOffset =
     (if byteOffset \<le> length buffer then Inr (drop byteOffset buffer) else Inl RangeError)"

definition Uint8Array_of_typed_array :: "byte list \<Rightarrow> nat \<Rightarrow> byte list" where
  "Uint8Array_of_typed_array arr ignored = arr"

text \<open>
  Frame stripping as \<^verbatim>\<open>grpcCall\<close> does it on a response
  (\<^verbatim>\<open>new Uint8Array(responseData, 5)\<close>, line 188 and its copies).
\<close>

definition decodeFrame :: "byte list \<Rightarrow> error + byte list" where
  "decodeFrame responseData = Uint8Array_of_buffer responseData 5"

text \<open>The unsigned value of four bytes read most significant byte first.\<close>

definition be32_value :: "byte list \<Rightarrow> 32 word" where
  "be32_value bs =
     (push_bit 24 (ucast (bs ! 0)) OR push_bit 16 (ucast (bs ! 1))
        OR push_bit 8 (ucast (bs ! 2)) OR ucast (bs ! 3))"

section \<open>Response text\<close>

text \<open>
  \<^verbatim>\<open>responseClone.text()\<close> decodes the body as UTF-8. Every pattern the client looks
  for is made of ASCII characters, an ASCII byte always decodes to itself, and no other
  byte sequence decodes to an ASCII character, so the searches below run on the bytes
  read as characters.
\<close>

definition text_of :: "byte list \<Rightarrow> string" where
  "text_of bs = map (\<lambda>b. char_of (unat b)) bs"

text \<open>\<^verbatim>\<open>s.includes(p)\<close> on strings.\<close>

fun includes_str :: "string \<Rightarrow> string \<Rightarrow> bool" where
  "includes_str [] p = (p = [])"
| "includes_str (c # cs) p = (prefix p (c # cs) \<or> includes_str cs p)"

definition is_digit :: "char \<Rightarrow> bool" where
  "is_digit c = (c \<in> set ''0123456789'')"

definition is_hex :: "char \<Rightarrow> bool" where
  "is_hex c = (c \<in> set ''0123456789abcdefABCDEF'')"

text \<open>\<^verbatim>\<open>/0x[0-9a-f]{64}/i\<close> matched at the start of \<open>s\<close>.\<close>

definition assetId_at :: "string \<Rightarrow> bool" where
  "assetId_at s =
     (66 \<le> length s \<and> s ! 0 = CHR ''0'' \<and> (s ! 1 = CHR ''x'' \<or> s ! 1 = CHR ''X'')
      \<and> list_all is_hex (take 64 (drop 2 s)))"

text \<open>\<^verbatim>\<open>responseText.match(/0x[0-9a-f]{64}/i)\<close>: the leftmost match, if any.\<close>

fun match_assetId :: "string \<Rightarrow> string option" where
  "match_assetId [] = None"
| "match_assetId (c # cs) =
     (if assetId_at (c # cs) then Some (take 66 (c # cs)) else match_assetId cs)"

text \<open>
  \<^verbatim>\<open>responseText.match(/\d+\.\d+/g)\<close>: all non-overlapping matches, left to right,
  each a maximal run of digits, a dot and a maximal run of digits.
\<close>

function match_amounts :: "string \<Rightarrow> string list" where
  "match_amounts [] = []"
| "match_amounts (c # cs) =
     (let d1 = takeWhile is_digit (c # cs);
          r1 = dropWhile is_digit (c # cs)
      in if d1 \<noteq> [] \<and> r1 \<noteq> [] \<and> hd r1 = CHR ''.'' \<and> takeWhile is_digit (tl r1) \<noteq> []
         then (d1 @ ''.'' @ takeWhile is_digit (tl r1)) # match_amounts (dropWhile is_digit (tl r1))
         else match_amounts cs)"
  by pat_completeness auto
termination
proof (relation "measure length")
  show "wf (measure length)" by simp
next
  fix c :: char and cs d1 r1 :: string
  assume r1: "r1 = dropWhile is_digit (c # cs)"
    and c: "d1 \<noteq> [] \<and> r1 \<noteq> [] \<and> hd r1 = CHR ''.'' \<and> takeWhile is_digit (tl r1) \<noteq> []"
  have "length (dropWhile is_digit (tl r1)) \<le> length (tl r1)"
    by (rule length_dropWhile_le)
  moreover have "length (tl r1) < length r1" using c by (cases r1) auto
  moreover have "length r1 \<le> length (c # cs)" unfolding r1 by (rule length_dropWhile_le)
  ultimately show "(dropWhile is_digit (tl r1), c # cs) \<in> measure length" by simp
next
  fix c :: char and cs :: string
  show "(cs, c # cs) \<in> measure length" by simp
qed

text \<open>\<^verbatim>\<open>responseText.match(/[a-f0-9]{8}/i)\<close>: the leftmost run of eight hex digits.\<close>

fun match_hex8 :: "string \<Rightarrow> string option" where
  "match_hex8 [] = None"
| "match_hex8 (c # cs) =
     (if 8 \<le> length (c # cs) \<and> list_all is_hex (take 8 (c # cs))
      then Some (take 8 (c # cs)) else match_hex8 cs)"

text \<open>
  \<^verbatim>\<open>responseText.matchAll(/(\d{6,8})/g)\<close>: left to right, each match takes as many
  digits as it can, at most eight; a run of fewer than six digits matches nowhere.
\<close>

function matchAll_digits :: "string \<Rightarrow> string list" where
  "matchAll_digits [] = []"
| "matchAll_digits (c # cs) =
     (let run = takeWhile is_digit (c # cs)
      in if 6 \<le> length run
         then take 8 run # matchAll_digits (drop (min 8 (length run)) (c # cs))
         else matchAll_digits cs)"
  by pat_completeness auto
termination
  by (relation "measure length") auto

text \<open>
  \<^verbatim>\<open>parseInt(id) > 0 && parseInt(id) < 100000000\<close> on a match of six to eight decimal
  digits: the upper bound always holds, the lower one unless every digit is 0.
\<close>

definition plausible_network_id :: "string \<Rightarrow> bool" where
  "plausible_network_id ident = (\<exists>c \<in> set ident. c \<noteq> CHR ''0'')"

text \<open>\<^verbatim>\<open>[...new Set(xs)]\<close>: duplicates removed, first occurrences kept in order.\<close>

fun dedupe :: "'a list \<Rightarrow> 'a list" where
  "dedupe [] = []"
| "dedupe (x # xs) = x # dedupe (filter (\<lambda>y. y \<noteq> x) xs)"

definition is_space :: "char \<Rightarrow> bool" where
  "is_space c = (c \<in> set [CHR '' '', CHR 0x09, CHR 0x0A, CHR 0x0B, CHR 0x0C, CHR 0x0D])"

definition trim :: "string \<Rightarrow> string" where
  "trim s = rev (dropWhile is_space (rev (dropWhile is_space s)))"

section \<open>Data model of the call executor\<close>

datatype protocol = BITCOIN | EVM

datatype network = Network (protocol: protocol) (net_id: string)

text \<open>
  The generated protobuf code (\<^verbatim>\<open>@/proto/...\<close>) is not among the files of the
  repository. The content of a decoded message that the client never inspects is a value of the
  type parameter \<open>'o\<close>; the fields the client does read are spelled out.
\<close>

record 'o fee_estimate =
  low :: "'o option"
  medium :: "'o option"
  high :: "'o option"

datatype 'o message =
    Networks_msg "network list"
  | Balances_msg "(string \<times> 'o) list"
  | Channels_msg "'o list"
  | FeeEstimates_msg "'o fee_estimate option"
  | Opaque_msg 'o

datatype msg_type =
    GetInitializedMarketsResponse | GetMarketsInfoResponse
  | GetRentalNodeInfoResponse | GetRentableAssetInfoResponse
  | EstimateRentChannelFeeResponse | RentChannelResponse
  | GetDepositAddressResponse | GetAssetFiatPriceResponse | GetAssetsResponse
  | GetTransactionsResponse | GetConnectedPeersResponse
  | EstimateOpenChannelFeeResponse | OpenChannelResponse | GetAssetResponse

text \<open>
  What \<^verbatim>\<open>grpcCall\<close> returns (\<^verbatim>\<open>TResponse\<close>): the value of a protobuf decoder,
  or one of the object literals the client writes itself. The two numbers of
  \<open>Balances_parsed\<close> are kept as the matched decimal texts \<open>a\<close> they are read from
  (\<^verbatim>\<open>parseFloat(a) || 0\<close>).
\<close>

datatype 'o response =
    Decoded "'o message"
  | Markets_default
  | InitMarket_success
  | Balances_parsed string string string
  | Balances_default
  | Networks_parsed "network list"
  | Empty_object
  | Transactions_default
  | Channels_default
  | NodeIds_default
  | Price_default
  | Assets_default
  | Asset_default

datatype fee_option = Low_fee | Medium_fee | High_fee

datatype amount = Exact string | Invalid_amount

datatype request =
    Empty_request
  | Network_request network
  | ConnectToPeer_request network string
  | Channel_amounts_request network string "(string \<times> amount) list" fee_option
  | Channel_assets_request network string "string list" fee_option
  | Market_request string string

record http_response =
  status :: nat
  grpc_status :: "string option"
  grpc_message :: "string option"
  body :: "byte list"

text \<open>
  The world outside the client: the request encoders (\<open>None\<close> when one throws), the
  server reached by \<^verbatim>\<open>fetch\<close> (service path, method and body frame in, a response or
  a rejected promise out; the same request gets the same answer, and the body of a response
  is available in full), and the response decoders (\<open>None\<close> when one throws).
\<close>

record 'o env =
  encodeRequest :: "request \<Rightarrow> byte list option"
  fetch :: "string \<Rightarrow> string \<Rightarrow> byte list \<Rightarrow> error + http_response"
  decode_networks :: "byte list \<Rightarrow> network list option"
  decode_balances :: "byte list \<Rightarrow> (string \<times> 'o) list option"
  decode_channels :: "byte list \<Rightarrow> 'o list option"
  decode_feeEstimates :: "byte list \<Rightarrow> 'o fee_estimate option option"
  decode_other :: "msg_type \<Rightarrow> byte list \<Rightarrow> 'o option"

text \<open>
  One block of \<^verbatim>\<open>grpcCall\<close> either returns a value, throws, or is left without
  either, and the code after it runs.
\<close>

datatype 'a outcome = Return 'a | Throw error | Continue

fun or_else :: "'a outcome \<Rightarrow> 'a outcome \<Rightarrow> 'a outcome" where
  "or_else Continue b = b"
| "or_else (Return v) b = Return v"
| "or_else (Throw e) b = Throw e"

text \<open>The end of a chain of blocks: the code after the last block throws or returns.\<close>

fun or_throw :: "'a outcome \<Rightarrow> error \<Rightarrow> error + 'a" where
  "or_throw Continue e = Inl e"
| "or_throw (Return v) e = Inr v"
| "or_throw (Throw e') e = Inl e'"

fun or_return :: "'a outcome \<Rightarrow> 'a \<Rightarrow> error + 'a" where
  "or_return Continue v = Inr v"
| "or_return (Return v') v = Inr v'"
| "or_return (Throw e) v = Inl e"

text \<open>
  \<^verbatim>\<open>new Uint8Array(responseData, 5)\<close> followed by \<^verbatim>\<open>X.decode(reader)\<close> inside one
  \<^verbatim>\<open>try\<close>: \<open>None\<close> when either throws.
\<close>

definition try_decode :: "(byte list \<Rightarrow> 'a option) \<Rightarrow> byte list \<Rightarrow> 'a option" where
  "try_decode dec responseData =
     (case decodeFrame responseData of Inl e \<Rightarrow> None | Inr responseBytes \<Rightarrow> dec responseBytes)"

text \<open>A \<^verbatim>\<open>try { decode; return decoded } catch { fall back to text parsing }\<close> block.\<close>

definition decode_or_continue ::
  "(byte list \<Rightarrow> 'a option) \<Rightarrow> ('a \<Rightarrow> 'o message) \<Rightarrow> byte list \<Rightarrow> 'o response outcome" where
  "decode_or_continue dec wrap responseData =
     (case try_decode dec responseData of
        Some decoded \<Rightarrow> Return (Decoded (wrap decoded))
      | None \<Rightarrow> Continue)"

text \<open>A \<^verbatim>\<open>try { decode; return decoded } catch { return dflt }\<close> block.\<close>

definition decode_or_default ::
  "(byte list \<Rightarrow> 'a option) \<Rightarrow> ('a \<Rightarrow> 'o message) \<Rightarrow> 'o response \<Rightarrow> byte list \<Rightarrow> 'o response outcome" where
  "decode_or_default dec wrap dflt responseData =
     (case try_decode dec responseData of
        Some decoded \<Rightarrow> Return (Decoded (wrap decoded))
      | None \<Rightarrow> Return dflt)"

text \<open>A \<^verbatim>\<open>try { decode; return decoded } catch { throw new Error(...) }\<close> block.\<close>

definition decode_or_throw ::
  "(byte list \<Rightarrow> 'a option) \<Rightarrow> ('a \<Rightarrow> 'o message) \<Rightarrow> string \<Rightarrow> byte list \<Rightarrow> 'o response outcome" where
  "decode_or_throw dec wrap method responseData =
     (case try_decode dec responseData of
        Some decoded \<Rightarrow> Return (Decoded (wrap decoded))
      | None \<Rightarrow> Throw (DecodeFailed method))"

text \<open>Lines 110-138: the two market read methods, handled before anything else.\<close>

definition markets_block :: "'o env \<Rightarrow> string \<Rightarrow> string \<Rightarrow> byte list \<Rightarrow> 'o response outcome" where
  "markets_block env servicePath method responseData =
     (if servicePath = ''hydra_app.OrderbookService''
         \<and> method \<in> set [''GetMarketsInfo'', ''GetInitializedMarkets'']
      then or_else
             (if method = ''GetInitializedMarkets''
              then decode_or_default (decode_other env GetInitializedMarketsResponse) Opaque_msg
                     Markets_default responseData
              else Continue)
             (if method = ''GetMarketsInfo''
              then decode_or_default (decode_other env GetMarketsInfoResponse) Opaque_msg
                     Markets_default responseData
              else Continue)
      else Continue)"

text \<open>
  Lines 141-179: the rental service. The whole block is one \<^verbatim>\<open>try\<close>; a method it does
  not know leaves it, and the read of the body that follows (line 182) finds the body
  already consumed.
\<close>

definition rental_block :: "'o env \<Rightarrow> string \<Rightarrow> string \<Rightarrow> byte list \<Rightarrow> 'o response outcome" where
  "rental_block env servicePath method responseData =
     (if servicePath = ''hydra_app.RentalService''
      then (if method = ''GetRentalNodeInfo''
            then decode_or_throw (decode_other env GetRentalNodeInfoResponse) Opaque_msg method responseData
            else if method = ''GetRentableAssetInfo''
            then decode_or_throw (decode_other env GetRentableAssetInfoResponse) Opaque_msg method responseData
            else if method = ''EstimateRentChannelFee''
            then decode_or_throw (decode_other env EstimateRentChannelFeeResponse) Opaque_msg method responseData
            else if method = ''RentChannel''
            then decode_or_throw (decode_other env RentChannelResponse) Opaque_msg method responseData
            else (case decodeFrame responseData of
                    Inl e \<Rightarrow> Throw (DecodeFailed method)
                  | Inr responseBytes \<Rightarrow> Throw BodyAlreadyRead))
      else Continue)"

text \<open>Lines 184-392: one block per method that has a structured decoder.\<close>

definition decode_blocks :: "'o env \<Rightarrow> string \<Rightarrow> string \<Rightarrow> byte list \<Rightarrow> 'o response outcome" where
  "decode_blocks env servicePath method responseData =
     or_else (if servicePath = ''hydra_app.AppService'' \<and> method = ''GetNetworks''
              then decode_or_continue (decode_networks env) Networks_msg responseData else Continue)
    (or_else (if servicePath = ''hydra_app.BlockchainService'' \<and> method = ''GetFeeEstimates''
              then decode_or_continue (decode_feeEstimates env) FeeEstimates_msg responseData else Continue)
    (or_else (if servicePath = ''hydra_app.ClientService'' \<and> method = ''GetDepositAddress''
              then decode_or_throw (decode_other env GetDepositAddressResponse) Opaque_msg method responseData
              else Continue)
    (or_else (if servicePath = ''hydra_app.WalletService'' \<and> method = ''GetBalances''
              then decode_or_continue (decode_balances env) Balances_msg responseData else Continue)
    (or_else (if servicePath = ''hydra_app.PricingService'' \<and> method = ''GetAssetFiatPrice''
              then decode_or_continue (decode_other env GetAssetFiatPriceResponse) Opaque_msg responseData
              else Continue)
    (or_else (if servicePath = ''hydra_app.AssetService'' \<and> method = ''GetAssets''
              then decode_or_continue (decode_other env GetAssetsResponse) Opaque_msg responseData
              else Continue)
    (or_else (if servicePath = ''hydra_app.WalletService'' \<and> method = ''GetTransactions''
              then decode_or_continue (decode_other env GetTransactionsResponse) Opaque_msg responseData
              else Continue)
    (or_else (if servicePath = ''hydra_app.WatchOnlyNodeService'' \<and> method = ''GetChannels''
              then decode_or_continue (decode_channels env) Channels_msg responseData else Continue)
    (or_else (if servicePath = ''hydra_app.NodeService'' \<and> method = ''GetConnectedPeers''
              then decode_or_continue (decode_other env GetConnectedPeersResponse) Opaque_msg responseData
              else Continue)
    (or_else (if servicePath = ''hydra_app.NodeService'' \<and> method = ''EstimateOpenChannelFee''
              then decode_or_continue (decode_other env EstimateOpenChannelFeeResponse) Opaque_msg responseData
              else Continue)
             (if servicePath = ''hydra_app.NodeService'' \<and> method = ''OpenChannel''
              then decode_or_continue (decode_other env OpenChannelResponse) Opaque_msg responseData
              else Continue))))))))))"

text \<open>Lines 107-393: what happens on HTTP 200 before the text fallback.\<close>

definition structured_blocks :: "'o env \<Rightarrow> string \<Rightarrow> string \<Rightarrow> byte list \<Rightarrow> 'o response outcome" where
  "structured_blocks env servicePath method responseData =
     or_else (markets_block env servicePath method responseData)
    (or_else (rental_block env servicePath method responseData)
             (decode_blocks env servicePath method responseData))"

section \<open>Text fallback\<close>

text \<open>
  Lines 465-513: networks read out of the response text. The identifiers are runs of
  hex digits or decimal digits.
\<close>

definition network_of_id :: "string \<Rightarrow> network" where
  "network_of_id networkId =
     (let cleanId = trim networkId;
          isBitcoin = (length cleanId = 8 \<and> list_all is_hex cleanId);
          isKnownEvm = (cleanId \<in> set [''1'', ''11155111'', ''421614'', ''42161'', ''137'',
                                          ''56'', ''10'', ''43114''])
      in Network (if isKnownEvm then EVM else (if isBitcoin then BITCOIN else EVM)) cleanId)"

definition parse_networks_text :: "string \<Rightarrow> network list" where
  "parse_networks_text responseText =
     (let networkIds =
            (case match_hex8 responseText of None \<Rightarrow> [] | Some b \<Rightarrow> [b])
            @ filter plausible_network_id (matchAll_digits responseText);
          networkIdMatches = dedupe networkIds
      in filter (\<lambda>n. 0 < length (net_id n)) (map network_of_id networkIdMatches))"

text \<open>Lines 420-446: balances read out of the response text.\<close>

definition parse_balances_text :: "string \<Rightarrow> 'o response" where
  "parse_balances_text responseText =
     (case match_assetId responseText of
        Some assetId \<Rightarrow>
          (let amounts = match_amounts responseText
           in if 2 \<le> length amounts
              then Balances_parsed assetId (amounts ! 0) (amounts ! 1)
              else Balances_default)
      | None \<Rightarrow> Balances_default)"

text \<open>Lines 403-514: the workarounds tried on HTTP 200 when no block above returned.\<close>

definition text_blocks :: "string \<Rightarrow> string \<Rightarrow> string \<Rightarrow> 'o response outcome" where
  "text_blocks servicePath method responseText =
     or_else
       (if (servicePath = ''hydra_app.WalletService'' \<and> method = ''GetBalances'')
           \<or> (servicePath = ''hydra_app.OrderbookService'' \<and> method = ''InitMarket'')
        then (if includes_str responseText ''grpc-status:0''
              then (if servicePath = ''hydra_app.OrderbookService'' \<and> method = ''InitMarket''
                    then Return InitMarket_success
                    else Return (parse_balances_text responseText))
              else Continue)
        else (if servicePath = ''hydra_app.OrderbookService''
                 \<and> (method = ''GetMarketsInfo'' \<or> method = ''GetInitializedMarkets'')
              then Return Markets_default
              else Continue))
      (or_else
        (if servicePath = ''hydra_app.NodeService'' \<and> method = ''ConnectToPeer''
            \<and> includes_str responseText ''grpc-status:0''
         then Return Empty_object else Continue)
        (if servicePath = ''hydra_app.AppService'' \<and> method = ''GetNetworks''
            \<and> includes_str responseText ''grpc-status:0''
         then Return (Networks_parsed (parse_networks_text responseText)) else Continue))"

text \<open>Lines 101-517: the response carries no \<^verbatim>\<open>grpc-status\<close> header.\<close>

definition no_status_branch :: "'o env \<Rightarrow> string \<Rightarrow> string \<Rightarrow> http_response \<Rightarrow> error + 'o response" where
  "no_status_branch env servicePath method response =
     or_throw
       (or_else
         (if status response = 200
          then structured_blocks env servicePath method (body response) else Continue)
         (if status response = 200
          then text_blocks servicePath method (text_of (body response)) else Continue))
       (NoGrpcHeaders (status response))"

text \<open>Lines 519-686: the header \<^verbatim>\<open>grpc-status\<close> is \<^verbatim>\<open>'0'\<close>.\<close>

definition status0_branch :: "'o env \<Rightarrow> string \<Rightarrow> string \<Rightarrow> byte list \<Rightarrow> error + 'o response" where
  "status0_branch env servicePath method responseData =
     or_return
    (or_else (if servicePath = ''hydra_app.AppService'' \<and> method = ''GetNetworks''
              then decode_or_continue (decode_networks env) Networks_msg responseData else Continue)
    (or_else (if servicePath = ''hydra_app.WalletService'' \<and> method = ''GetBalances''
              then decode_or_continue (decode_balances env) Balances_msg responseData else Continue)
    (or_else (if servicePath = ''hydra_app.BlockchainService'' \<and> method = ''GetFeeEstimates''
              then decode_or_continue (decode_feeEstimates env) FeeEstimates_msg responseData else Continue)
    (or_else (if servicePath = ''hydra_app.WalletService'' \<and> method = ''GetTransactions''
              then decode_or_default (decode_other env GetTransactionsResponse) Opaque_msg
                     Transactions_default responseData
              else Continue)
    (or_else (if servicePath = ''hydra_app.WatchOnlyNodeService'' \<and> method = ''GetChannels''
              then decode_or_default (decode_channels env) Channels_msg Channels_default responseData
              else Continue)
    (or_else (if servicePath = ''hydra_app.NodeService'' \<and> method = ''GetConnectedPeers''
              then decode_or_default (decode_other env GetConnectedPeersResponse) Opaque_msg
                     NodeIds_default responseData
              else Continue)
    (or_else (if servicePath = ''hydra_app.PricingService'' \<and> method = ''GetAssetFiatPrice''
              then decode_or_default (decode_other env GetAssetFiatPriceResponse) Opaque_msg
                     Price_default responseData
              else Continue)
    (or_else (if servicePath = ''hydra_app.AssetService'' \<and> method = ''GetAssets''
              then decode_or_default (decode_other env GetAssetsResponse) Opaque_msg
                     Assets_default responseData
              else Continue)
             (if servicePath = ''hydra_app.AssetService'' \<and> method = ''GetAsset''
              then decode_or_default (decode_other env GetAssetResponse) Opaque_msg
                     Asset_default responseData
              else Continue)))))))))
      Empty_object"

section \<open>The call executor\<close>

text \<open>Lines 72-93: the request is encoded, framed and sent; the response comes back.\<close>

definition exchange :: "'o env \<Rightarrow> string \<Rightarrow> string \<Rightarrow> request \<Rightarrow> error + http_response" where
  "exchange env servicePath method request =
     (case encodeRequest env request of
        None \<Rightarrow> Inl EncodeError
      | Some messageBytes \<Rightarrow>
          (case encodeFrame messageBytes of
             Inl e \<Rightarrow> Inl e
           | Inr frame \<Rightarrow> fetch env servicePath method frame))"

text \<open>Lines 70-690: the body of the \<^verbatim>\<open>try\<close> of \<^verbatim>\<open>grpcCall\<close>.\<close>

definition grpcCall_try :: "'o env \<Rightarrow> string \<Rightarrow> string \<Rightarrow> request \<Rightarrow> error + 'o response" where
  "grpcCall_try env servicePath method request =
     (case exchange env servicePath method request of
        Inl e \<Rightarrow> Inl e
      | Inr response \<Rightarrow>
          (case grpc_status response of
             None \<Rightarrow> no_status_branch env servicePath method response
           | Some grpcStatus \<Rightarrow>
               (if grpcStatus = ''0''
                then status0_branch env servicePath method (body response)
                else Inl (GrpcStatusError grpcStatus (grpc_message response)))))"

text \<open>
  \<^verbatim>\<open>grpcCall\<close>: whatever the \<^verbatim>\<open>try\<close> throws is caught and thrown again inside a
  \<^verbatim>\<open>GrpcCallError\<close>.
\<close>

definition grpcCall :: "'o env \<Rightarrow> string \<Rightarrow> string \<Rightarrow> request \<Rightarrow> error + 'o response" where
  "grpcCall env servicePath method request =
     (case grpcCall_try env servicePath method request of
        Inr v \<Rightarrow> Inr v
      | Inl e \<Rightarrow> Inl (GrpcCallError e))"

section \<open>Per-domain operations\<close>

text \<open>
  Of the console output, the lines written by a \<^verbatim>\<open>catch\<close> block and the summary line
  of \<^verbatim>\<open>getBalances\<close> are kept. An operation returns its log and its outcome.
\<close>

datatype log =
    Log_failed string error
  | Log_network_failed network error
  | Log_no_networks
  | Log_summary nat nat

text \<open>Reading a field of a returned object; \<open>None\<close> is \<^verbatim>\<open>undefined\<close>.\<close>

fun networks_field :: "'o response \<Rightarrow> network list option" where
  "networks_field (Decoded (Networks_msg ns)) = Some ns"
| "networks_field (Networks_parsed ns) = Some ns"
| "networks_field r = None"

datatype 'o balance = Decoded_balance 'o | Parsed_balance string string

fun balances_field :: "'o response \<Rightarrow> (string \<times> 'o balance) list option" where
  "balances_field (Decoded (Balances_msg bs)) = Some (map (\<lambda>(k, v). (k, Decoded_balance v)) bs)"
| "balances_field (Balances_parsed assetId onChain offChain) =
     Some [(assetId, Parsed_balance onChain offChain)]"
| "balances_field Balances_default = Some []"
| "balances_field r = None"

fun channels_field :: "'o response \<Rightarrow> 'o list option" where
  "channels_field (Decoded (Channels_msg cs)) = Some cs"
| "channels_field Channels_default = Some []"
| "channels_field r = None"


text \<open>
  A \<^verbatim>\<open>Record<string, any>\<close> is a list of key/value pairs in insertion order.
  \<open>js_set\<close> is the assignment \<^verbatim>\<open>obj[key] = value\<close>; \<open>object_assign\<close> is
  \<^verbatim>\<open>Object.assign(target, source)\<close>, which assigns the entries of \<open>source\<close> one
  after the other.
\<close>

fun js_set :: "('k \<times> 'v) list \<Rightarrow> 'k \<Rightarrow> 'v \<Rightarrow> ('k \<times> 'v) list" where
  "js_set [] k v = [(k, v)]"
| "js_set ((k', v') # rest) k v =
     (if k' = k then (k, v) # rest else (k', v') # js_set rest k v)"

fun object_assign :: "('k \<times> 'v) list \<Rightarrow> ('k \<times> 'v) list \<Rightarrow> ('k \<times> 'v) list" where
  "object_assign target [] = target"
| "object_assign target ((k, v) # source) = object_assign (js_set target k v) source"

text \<open>Lines 758-776.\<close>

definition getNetworks :: "'o env \<Rightarrow> log list \<times> (error + network list)" where
  "getNetworks env =
     (case grpcCall env ''hydra_app.AppService'' ''GetNetworks'' Empty_request of
        Inr result \<Rightarrow>
          ([], Inr (case networks_field result of Some networks \<Rightarrow> networks | None \<Rightarrow> []))
      | Inl error \<Rightarrow> ([Log_failed ''getNetworks'' error], Inr []))"

text \<open>
  Lines 794-832, the loop of \<^verbatim>\<open>getBalances\<close>; its state is \<^verbatim>\<open>allBalances\<close>,
  \<^verbatim>\<open>successCount\<close> and the log.
\<close>

fun getBalances_loop ::
  "'o env \<Rightarrow> network list \<Rightarrow> (string \<times> 'o balance) list \<times> nat \<times> log list
     \<Rightarrow> (string \<times> 'o balance) list \<times> nat \<times> log list" where
  "getBalances_loop env [] st = st"
| "getBalances_loop env (network # rest) (allBalances, successCount, logs) =
     (case grpcCall env ''hydra_app.WalletService'' ''GetBalances'' (Network_request network) of
        Inr result \<Rightarrow>
          (case balances_field result of
             Some balances \<Rightarrow>
               getBalances_loop env rest (object_assign allBalances balances, successCount + 1, logs)
           | None \<Rightarrow> getBalances_loop env rest (allBalances, successCount + 1, logs))
      | Inl error \<Rightarrow>
          getBalances_loop env rest
            (allBalances, successCount, logs @ [Log_network_failed network error]))"

text \<open>Lines 781-836.\<close>

definition getBalances :: "'o env \<Rightarrow> log list \<times> (error + (string \<times> 'o balance) list)" where
  "getBalances env =
     (case getNetworks env of
        (logs0, Inl error) \<Rightarrow> (logs0, Inl error)
      | (logs0, Inr configuredNetworks) \<Rightarrow>
          (if length configuredNetworks = 0
           then (logs0 @ [Log_no_networks], Inr [])
           else (case getBalances_loop env configuredNetworks ([], 0, logs0) of
                   (allBalances, successCount, logs) \<Rightarrow>
                     (logs @ [Log_summary successCount (length configuredNetworks)],
                      Inr allBalances))))"

text \<open>Lines 895-914, the loop of \<^verbatim>\<open>getChannels\<close>.\<close>

fun getChannels_loop ::
  "'o env \<Rightarrow> network list \<Rightarrow> 'o list \<times> log list \<Rightarrow> 'o list \<times> log list" where
  "getChannels_loop env [] st = st"
| "getChannels_loop env (network # rest) (allChannels, logs) =
     (case grpcCall env ''hydra_app.WatchOnlyNodeService'' ''GetChannels'' (Network_request network) of
        Inr result \<Rightarrow>
          (case channels_field result of
             Some channels \<Rightarrow> getChannels_loop env rest (allChannels @ channels, logs)
           | None \<Rightarrow> getChannels_loop env rest (allChannels, logs))
      | Inl error \<Rightarrow>
          getChannels_loop env rest (allChannels, logs @ [Log_network_failed network error]))"

text \<open>Lines 881-921: the body of the outer \<^verbatim>\<open>try\<close>, then the outer \<^verbatim>\<open>catch\<close>.\<close>

definition getChannels_try :: "'o env \<Rightarrow> log list \<times> (error + 'o list)" where
  "getChannels_try env =
     (case getNetworks env of
        (logs0, Inl error) \<Rightarrow> (logs0, Inl error)
      | (logs0, Inr networks) \<Rightarrow>
          (if length networks = 0
           then (logs0 @ [Log_no_networks], Inr [])
           else (case getChannels_loop env networks ([], logs0) of
                   (allChannels, logs) \<Rightarrow> (logs, Inr allChannels))))"

definition getChannels :: "'o env \<Rightarrow> log list \<times> (error + 'o list)" where
  "getChannels env =
     (case getChannels_try env of
        (logs, Inr allChannels) \<Rightarrow> (logs, Inr allChannels)
      | (logs, Inl error) \<Rightarrow> (logs @ [Log_failed ''getChannels'' error], Inr []))"



text \<open>
  The operations below share one shape: \<^verbatim>\<open>try { ... await this.grpcCall(...) ... }
  catch (error) { console.error(...); throw error }\<close>. \<^verbatim>\<open>connectToPeer\<close> is declared
  \<^verbatim>\<open>Promise<void>\<close> and has no \<^verbatim>\<open>return\<close>: it gives its caller no value. The others
  end their \<^verbatim>\<open>try\<close> with \<^verbatim>\<open>return result\<close>.
\<close>












section \<open>Stream subscriber\<close>

text \<open>
  \<^verbatim>\<open>subscribeToNodeEvents\<close> and \<^verbatim>\<open>subscribeToClientEvents\<close> (lines 1515-1656) are
  the same code up to the decoder. The streaming \<^verbatim>\<open>fetch\<close> is rejected, or gives a
  response with an HTTP status and, possibly, a body reader.
\<close>

datatype stream_response = Stream_rejected string | Stream_response nat bool

text \<open>What one \<^verbatim>\<open>reader.read()\<close> resolves to, or that it rejects.\<close>

datatype read_result = Chunk "byte list" | Done | Read_failed string

text \<open>
  The variables the two closures \<^verbatim>\<open>unsubscribe\<close> and \<^verbatim>\<open>processStream\<close> share:
  \<^verbatim>\<open>isActive\<close>, whether \<^verbatim>\<open>reader.cancel()\<close> has been called, and whether
  \<^verbatim>\<open>processStream\<close> has returned.
\<close>

record subscription =
  isActive :: bool
  cancelled :: bool
  finished :: bool

text \<open>What the subscriber does to its caller: the two callbacks, and the warning it logs.\<close>

datatype 'ev stream_output = Call_onEvent 'ev | Call_onError error | Warn_decode_failed

text \<open>Lines 1520-1545 and 1577-1583: opening the stream.\<close>

definition open_stream :: "stream_response \<Rightarrow> error + subscription" where
  "open_stream r =
     (case r of
        Stream_rejected m \<Rightarrow> Inl (FetchError m)
      | Stream_response st has_reader \<Rightarrow>
          (if \<not> (200 \<le> st \<and> st \<le> 299) then Inl (HttpNotOk st)
           else if \<not> has_reader then Inl NoBodyReader
           else Inr \<lparr>isActive = True, cancelled = False, finished = False\<rparr>))"

definition subscribeToEvents ::
  "stream_response \<Rightarrow> bool \<Rightarrow> (error + subscription) \<times> 'ev stream_output list" where
  "subscribeToEvents r has_onError =
     (case open_stream r of
        Inr sub \<Rightarrow> (Inr sub, [])
      | Inl error \<Rightarrow> (Inl error, if has_onError then [Call_onError error] else []))"


text \<open>
  Lines 1548-1571, one turn of the loop of \<^verbatim>\<open>processStream\<close>: the code after
  \<^verbatim>\<open>await reader.read()\<close> runs with the result \<open>r\<close> the read has settled with. The
  loop tests \<^verbatim>\<open>isActive\<close> before it issues a read and not again when the read has
  settled: a chunk is decoded and passed to \<^verbatim>\<open>onEvent\<close> whatever \<^verbatim>\<open>isActive\<close> is
  by then, and the next test of \<^verbatim>\<open>isActive\<close> ends the loop. Only the
  \<^verbatim>\<open>catch\<close> of a failed read tests \<^verbatim>\<open>isActive\<close> before it calls
  \<^verbatim>\<open>onError\<close>. A chunk is handed to the decoder through
  \<^verbatim>\<open>new Uint8Array(value, 5)\<close>, where \<^verbatim>\<open>value\<close> is a typed array. The callbacks
  themselves do not throw. (\<^verbatim>\<open>reader.cancel()\<close> makes a read that has not settled yet
  settle as done; a read that has settled already keeps its result.)
\<close>

definition processStream_step ::
  "(byte list \<Rightarrow> 'ev option) \<Rightarrow> bool \<Rightarrow> subscription \<Rightarrow> read_result
     \<Rightarrow> subscription \<times> 'ev stream_output list" where
  "processStream_step dec has_onError sub r =
     (if finished sub then (sub, [])
      else (case r of
              Done \<Rightarrow> (sub\<lparr>finished := True\<rparr>, [])
            | Read_failed m \<Rightarrow>
                (sub\<lparr>finished := True\<rparr>,
                 if isActive sub \<and> has_onError then [Call_onError (StreamReadError m)] else [])
            | Chunk value \<Rightarrow>
                (if isActive sub then sub else sub\<lparr>finished := True\<rparr>,
                 case dec (Uint8Array_of_typed_array value 5) of
                   Some event \<Rightarrow> [Call_onEvent event]
                 | None \<Rightarrow> [Warn_decode_failed])))"


section \<open>Cache invalidation and the event hooks\<close>

text \<open>
  \<^verbatim>\<open>src/hooks/useRealHydraData.ts\<close>. The state the handlers write: the React state
  \<^verbatim>\<open>lastEvent\<close> and \<^verbatim>\<open>isConnected\<close>, the calls of
  \<^verbatim>\<open>queryClient.invalidateQueries\<close> (oldest first, by query key), and the pending
  \<^verbatim>\<open>setTimeout\<close> calls (delay in milliseconds and what the callback does).
\<close>

datatype timer_action = Invalidate "string list" | Reconnect

record 'ev ui_state =
  lastEvent :: "'ev option"
  isConnected :: bool
  invalidated :: "string list list"
  timers :: "(nat \<times> timer_action) list"

text \<open>A \<^verbatim>\<open>NodeEvent\<close>: the four payload fields the handler tests.\<close>

record 'p node_event =
  channelUpdate :: "'p option"
  channelClosed :: "'p option"
  assetChannelUpdate :: "'p option"
  paymentUpdate :: "'p option"

definition invalidateQueries :: "string list \<Rightarrow> 'ev ui_state \<Rightarrow> 'ev ui_state" where
  "invalidateQueries queryKey st = st\<lparr>invalidated := invalidated st @ [queryKey]\<rparr>"

definition setTimeout :: "timer_action \<Rightarrow> nat \<Rightarrow> 'ev ui_state \<Rightarrow> 'ev ui_state" where
  "setTimeout action delay st = st\<lparr>timers := timers st @ [(delay, action)]\<rparr>"

text \<open>Lines 541-573.\<close>

definition handleNodeEvent ::
  "bool \<Rightarrow> 'p node_event \<Rightarrow> 'p node_event ui_state \<Rightarrow> 'p node_event ui_state" where
  "handleNodeEvent is_mounted event st =
     (if \<not> is_mounted then st
      else
        let st1 = st\<lparr>lastEvent := Some event\<rparr>;
            st2 = (if channelUpdate event \<noteq> None
                   then invalidateQueries [''hydra'', ''balances'']
                          (invalidateQueries [''hydra'', ''channels''] st1)
                   else st1);
            st3 = (if channelClosed event \<noteq> None
                   then invalidateQueries [''hydra'', ''balances'']
                          (invalidateQueries [''hydra'', ''channels''] st2)
                   else st2);
            st4 = (if assetChannelUpdate event \<noteq> None
                   then invalidateQueries [''hydra'', ''balances'']
                          (invalidateQueries [''hydra'', ''channels''] st3)
                   else st3)
        in (if paymentUpdate event \<noteq> None
            then invalidateQueries [''hydra'', ''balances'']
                   (invalidateQueries [''hydra'', ''payments''] st4)
            else st4))"

text \<open>Lines 575-585: \<^verbatim>\<open>handleError\<close> of \<^verbatim>\<open>useNodeEventStream\<close>.\<close>

definition handleError :: "bool \<Rightarrow> 'ev ui_state \<Rightarrow> 'ev ui_state" where
  "handleError is_mounted st =
     (if \<not> is_mounted then st
      else setTimeout Reconnect 5000 (st\<lparr>isConnected := False\<rparr>))"

text \<open>Lines 632-647: the two handlers of \<^verbatim>\<open>useClientEventStream\<close>.\<close>

definition handleClientEvent :: "bool \<Rightarrow> 'ev \<Rightarrow> 'ev ui_state \<Rightarrow> 'ev ui_state" where
  "handleClientEvent is_mounted event st =
     (if \<not> is_mounted then st
      else invalidateQueries [''hydra'', ''balances''] (st\<lparr>lastEvent := Some event\<rparr>))"

definition handleError_client :: "bool \<Rightarrow> 'ev ui_state \<Rightarrow> 'ev ui_state" where
  "handleError_client is_mounted st =
     (if \<not> is_mounted then st else st\<lparr>isConnected := False\<rparr>)"

text \<open>Lines 315-330: \<^verbatim>\<open>onSuccess\<close> of \<^verbatim>\<open>useConnectToPeer\<close>.\<close>

definition connectToPeer_onSuccess :: "'ev ui_state \<Rightarrow> 'ev ui_state" where
  "connectToPeer_onSuccess st =
     setTimeout (Invalidate [''hydra'', ''peers'']) 5000
       (setTimeout (Invalidate [''hydra'', ''peers'']) 2000
          (invalidateQueries [''hydra'', ''peers''] st))"

text \<open>
  One run of the effect of \<^verbatim>\<open>useNodeEventStream\<close> (lines 536-611): the variable
  \<^verbatim>\<open>mounted\<close>, the state the handlers write, every stream this run has opened, the
  \<^verbatim>\<open>unsubscribe\<close> function held in React state (the index of its stream), the
  callbacks invoked so far, and the \<^verbatim>\<open>unsubscribe\<close> the cleanup closure holds. The
  closure holds the React state of the render that created the effect: \<^verbatim>\<open>null\<close> on
  mount, and after a change of \<^verbatim>\<open>network\<close> or \<^verbatim>\<open>queryClient\<close> the function of a
  stream that an earlier run opened. That stream is not among the streams of this run; it
  is kept by its own state.
\<close>

record 'p node_hook =
  mounted :: bool
  ui :: "'p node_event ui_state"
  subs :: "subscription list"
  unsubscribe_slot :: "nat option"
  calls :: "'p node_event stream_output list"
  captured :: "subscription option"

text \<open>The subscriber invokes the callback it was given.\<close>

fun dispatch :: "'p node_event stream_output \<Rightarrow> 'p node_hook \<Rightarrow> 'p node_hook" where
  "dispatch (Call_onEvent event) h =
     h\<lparr>ui := handleNodeEvent (mounted h) event (ui h), calls := calls h @ [Call_onEvent event]\<rparr>"
| "dispatch (Call_onError e) h =
     h\<lparr>ui := handleError (mounted h) (ui h), calls := calls h @ [Call_onError e]\<rparr>"
| "dispatch Warn_decode_failed h = h"

definition dispatch_all :: "'p node_event stream_output list \<Rightarrow> 'p node_hook \<Rightarrow> 'p node_hook" where
  "dispatch_all outs h = foldl (\<lambda>h' out. dispatch out h') h outs"

text \<open>Lines 587-600.\<close>

definition connectToEvents :: "stream_response \<Rightarrow> 'p node_hook \<Rightarrow> 'p node_hook" where
  "connectToEvents r h =
     (let h0 = h\<lparr>ui := (ui h)\<lparr>isConnected := False\<rparr>\<rparr>
      in case subscribeToEvents r True of
           (Inr sub, outs) \<Rightarrow>
             (let h1 = h0\<lparr>subs := subs h0 @ [sub]\<rparr>
              in if mounted h1
                 then h1\<lparr>unsubscribe_slot := Some (length (subs h0)),
                         ui := (ui h1)\<lparr>isConnected := True\<rparr>\<rparr>
                 else h1)
         | (Inl error, outs) \<Rightarrow>
             (let h1 = dispatch_all outs h0
              in h1\<lparr>ui := (ui h1)\<lparr>isConnected := False\<rparr>\<rparr>))"

text \<open>The reader of stream \<open>i\<close> settles a read.\<close>

definition deliver ::
  "(byte list \<Rightarrow> 'p node_event option) \<Rightarrow> nat \<Rightarrow> read_result \<Rightarrow> 'p node_hook \<Rightarrow> 'p node_hook" where
  "deliver dec i r h =
     (if i < length (subs h)
      then (case processStream_step dec True (subs h ! i) r of
              (sub1, outs) \<Rightarrow> dispatch_all outs (h\<lparr>subs := (subs h)[i := sub1]\<rparr>))
      else h)"





text \<open>
  The effect starts on mount: \<^verbatim>\<open>mounted = true\<close>, then \<^verbatim>\<open>connectToEvents()\<close>.
\<close>

definition mount :: "stream_response \<Rightarrow> 'p node_hook" where
  "mount r =
     connectToEvents r
       \<lparr>mounted = True,
        ui = \<lparr>lastEvent = None, isConnected = False, invalidated = [], timers = []\<rparr>,
        subs = [], unsubscribe_slot = None, calls = [], captured = None\<rparr>"

section \<open>Notions used to state the properties\<close>

text \<open>
  The calls that change state on the backend: the ones issued by \<^verbatim>\<open>connectToPeer\<close>,
  \<^verbatim>\<open>openChannel\<close>, \<^verbatim>\<open>depositChannel\<close>, \<^verbatim>\<open>withdrawChannel\<close>,
  \<^verbatim>\<open>closeChannel\<close>, \<^verbatim>\<open>forceCloseChannel\<close>, \<^verbatim>\<open>rentChannel\<close> and
  \<^verbatim>\<open>initMarket\<close>.
\<close>

definition mutating_calls :: "(string \<times> string) list" where
  "mutating_calls =
     [(''hydra_app.NodeService'', ''ConnectToPeer''),
      (''hydra_app.NodeService'', ''OpenChannel''),
      (''hydra_app.NodeService'', ''DepositChannel''),
      (''hydra_app.NodeService'', ''WithdrawChannel''),
      (''hydra_app.NodeService'', ''CloseChannel''),
      (''hydra_app.NodeService'', ''ForceCloseChannel''),
      (''hydra_app.RentalService'', ''RentChannel''),
      (''hydra_app.OrderbookService'', ''InitMarket'')]"

text \<open>The per-network calls of the two fan-out operations.\<close>

definition balances_call :: "'o env \<Rightarrow> network \<Rightarrow> error + 'o response" where
  "balances_call env n =
     grpcCall env ''hydra_app.WalletService'' ''GetBalances'' (Network_request n)"

definition channels_call :: "'o env \<Rightarrow> network \<Rightarrow> error + 'o response" where
  "channels_call env n =
     grpcCall env ''hydra_app.WatchOnlyNodeService'' ''GetChannels'' (Network_request n)"

text \<open>
  The results of the networks whose call succeeded, in query order, and the log lines of
  the networks whose call raised.
\<close>

fun successful :: "(network \<Rightarrow> error + 'r) \<Rightarrow> network list \<Rightarrow> 'r list" where
  "successful f [] = []"
| "successful f (n # ns) =
     (case f n of Inr r \<Rightarrow> r # successful f ns | Inl e \<Rightarrow> successful f ns)"

fun failures :: "(network \<Rightarrow> error + 'r) \<Rightarrow> network list \<Rightarrow> log list" where
  "failures f [] = []"
| "failures f (n # ns) =
     (case f n of Inr r \<Rightarrow> failures f ns | Inl e \<Rightarrow> Log_network_failed n e # failures f ns)"

text \<open>The merge of a list of results: balances by assignment, channels by appending.\<close>

fun add_balances :: "(string \<times> 'o balance) list \<Rightarrow> 'o response \<Rightarrow> (string \<times> 'o balance) list" where
  "add_balances acc r =
     (case balances_field r of Some bs \<Rightarrow> object_assign acc bs | None \<Rightarrow> acc)"

definition merge_balances :: "'o response list \<Rightarrow> (string \<times> 'o balance) list" where
  "merge_balances rs = foldl add_balances [] rs"

fun channels_of :: "'o response \<Rightarrow> 'o list" where
  "channels_of r = (case channels_field r of Some cs \<Rightarrow> cs | None \<Rightarrow> [])"

definition merge_channels :: "'o response list \<Rightarrow> 'o list" where
  "merge_channels rs = concat (map channels_of rs)"

text \<open>
  The balances one network reports (none when its call raised or its result has no
  \<^verbatim>\<open>balances\<close>), and the value an object written as a list of entries holds for a
  key: a later entry for the same key replaces an earlier one.
\<close>

definition reported :: "'o env \<Rightarrow> network \<Rightarrow> (string \<times> 'o balance) list" where
  "reported env n =
     (case balances_call env n of
        Inr r \<Rightarrow> (case balances_field r of Some bs \<Rightarrow> bs | None \<Rightarrow> [])
      | Inl e \<Rightarrow> [])"

definition entry_of :: "('k \<times> 'v) list \<Rightarrow> 'k \<Rightarrow> 'v option" where
  "entry_of obj k = map_of (rev obj) k"

text \<open>
  A response body in which the client recognises no asset: the structured decoder finds no
  balance entry in it and the asset pattern of the text fallback matches nowhere.
\<close>

definition no_recognizable_asset :: "'o env \<Rightarrow> byte list \<Rightarrow> bool" where
  "no_recognizable_asset env responseData =
     ((case try_decode (decode_balances env) responseData of None \<Rightarrow> True | Some bs \<Rightarrow> bs = [])
      \<and> match_assetId (text_of responseData) = None)"

section \<open>Example environments\<close>

text \<open>
  A backend with three networks. \<^verbatim>\<open>GetNetworks\<close> answers with status 0; a request about
  a network is answered with status 0 and the network's identifier as message, except for
  network 2, for which the connection fails; any other call is answered with HTTP 200,
  no gRPC status and an empty message.
\<close>

fun bytes_of :: "string \<Rightarrow> byte list" where
  "bytes_of s = map (\<lambda>c. of_nat (of_char c)) s"

fun demo_encode :: "request \<Rightarrow> byte list option" where
  "demo_encode (Network_request n) = Some (bytes_of (net_id n))"
| "demo_encode r = Some []"

fun demo_fetch :: "string \<Rightarrow> string \<Rightarrow> byte list \<Rightarrow> error + http_response" where
  "demo_fetch servicePath method frame =
     (if method = ''GetNetworks''
      then Inr \<lparr>status = 200, grpc_status = Some ''0'', grpc_message = None, body = [0, 0, 0, 0, 0]\<rparr>
      else if method = ''GetBalances'' \<or> method = ''GetChannels''
      then (if drop 5 frame = bytes_of ''2''
            then Inl (FetchError ''Failed to fetch'')
            else Inr \<lparr>status = 200, grpc_status = Some ''0'', grpc_message = None,
                      body = [0, 0, 0, 0, 0] @ drop 5 frame\<rparr>)
      else Inr \<lparr>status = 200, grpc_status = None, grpc_message = None, body = [0, 0, 0, 0, 0]\<rparr>)"

fun demo_networks :: "byte list \<Rightarrow> network list option" where
  "demo_networks bs = Some [Network BITCOIN ''1'', Network EVM ''2'', Network EVM ''3'']"

fun demo_balances :: "byte list \<Rightarrow> (string \<times> nat) list option" where
  "demo_balances bs =
     (if bs = bytes_of ''1'' then Some [(''btc'', 1), (''usd'', 2)]
      else if bs = bytes_of ''3'' then Some [(''usd'', 3)]
      else None)"

fun demo_channels :: "byte list \<Rightarrow> nat list option" where
  "demo_channels bs =
     (if bs = bytes_of ''1'' then Some [10]
      else if bs = bytes_of ''3'' then Some [30, 31]
      else None)"

fun demo_feeEstimates :: "byte list \<Rightarrow> nat fee_estimate option option" where
  "demo_feeEstimates bs = None"

fun demo_other :: "msg_type \<Rightarrow> byte list \<Rightarrow> nat option" where
  "demo_other t bs = Some 0"

definition demo_env :: "nat env" where
  "demo_env =
     \<lparr>encodeRequest = demo_encode, fetch = demo_fetch, decode_networks = demo_networks,
      decode_balances = demo_balances, decode_channels = demo_channels,
      decode_feeEstimates = demo_feeEstimates, decode_other = demo_other\<rparr>"

text \<open>
  The same backend answering every call but \<^verbatim>\<open>GetNetworks\<close> with HTTP 200 and no
  gRPC status: once with an empty message, once with the message of the request; a backend
  answering every call with status 0 and an empty message; and a backend that cannot be
  reached.
\<close>

fun quiet_fetch :: "string \<Rightarrow> string \<Rightarrow> byte list \<Rightarrow> error + http_response" where
  "quiet_fetch servicePath method frame =
     (if method = ''GetNetworks''
      then Inr \<lparr>status = 200, grpc_status = Some ''0'', grpc_message = None, body = [0, 0, 0, 0, 0]\<rparr>
      else Inr \<lparr>status = 200, grpc_status = None, grpc_message = None, body = [0, 0, 0, 0, 0]\<rparr>)"

definition quiet_env :: "nat env" where
  "quiet_env = demo_env\<lparr>fetch := quiet_fetch\<rparr>"

fun echo_fetch :: "string \<Rightarrow> string \<Rightarrow> byte list \<Rightarrow> error + http_response" where
  "echo_fetch servicePath method frame =
     (if method = ''GetNetworks''
      then Inr \<lparr>status = 200, grpc_status = Some ''0'', grpc_message = None, body = [0, 0, 0, 0, 0]\<rparr>
      else Inr \<lparr>status = 200, grpc_status = None, grpc_message = None,
                body = [0, 0, 0, 0, 0] @ drop 5 frame\<rparr>)"

definition echo_env :: "nat env" where
  "echo_env = demo_env\<lparr>fetch := echo_fetch\<rparr>"



fun down_fetch :: "string \<Rightarrow> string \<Rightarrow> byte list \<Rightarrow> error + http_response" where
  "down_fetch servicePath method frame = Inl (FetchError ''Failed to fetch'')"

definition down_env :: "nat env" where
  "down_env = demo_env\<lparr>fetch := down_fetch\<rparr>"

text \<open>
  An event decoder that rejects an empty message and a message ending in the byte 255, and
  the event it gives otherwise.
\<close>

definition demo_event :: "string node_event" where
  "demo_event =
     \<lparr>channelUpdate = Some ''channel-1'', channelClosed = None,
      assetChannelUpdate = None, paymentUpdate = None\<rparr>"

fun demo_decode_event :: "byte list \<Rightarrow> string node_event option" where
  "demo_decode_event bs = (if bs = [] \<or> last bs = 255 then None else Some demo_event)"

definition demo_ui :: "string node_event ui_state" where
  "demo_ui = \<lparr>lastEvent = None, isConnected = True, invalidated = [], timers = []\<rparr>"

definition active_subscription :: subscription where
  "active_subscription = \<lparr>isActive = True, cancelled = False, finished = False\<rparr>"

section \<open>Properties of the frame codec\<close>

lemma replicate5: "replicate (5 + n) x = x # x # x # x # x # replicate n x"
  by (simp add: numeral_eq_Suc)

lemma encodeFrame_explicit:
  "encodeFrame P =
     Inr ([0, ucast (drop_bit 24 (of_nat (length P) :: 32 word)),
              ucast (drop_bit 16 (of_nat (length P) :: 32 word)),
              ucast (drop_bit 8 (of_nat (length P) :: 32 word)),
              ucast (of_nat (length P) :: 32 word)] @ P)"
  by (simp add: encodeFrame_def setUint8_def setUint32_def set_bytes_def replicate5)

lemma be32_value_bytes:
  "be32_value [ucast (drop_bit 24 v), ucast (drop_bit 16 v), ucast (drop_bit 8 v),
               ucast (v :: 32 word)] = v"
  unfolding be32_value_def
  apply simp
  apply (rule bit_word_eqI)
  apply (simp add: bit_simps)
  apply (case_tac "n < 8"; case_tac "n < 16"; case_tac "n < 24"; simp)
  apply auto
  done

text \<open>
  Claim C5. For every payload \<open>P\<close> shorter than \<open>2^32\<close> bytes, framing succeeds, the frame
  is \<open>P\<close> behind five bytes (a compression flag 0 and the length of \<open>P\<close> as four bytes,
  most significant first), and stripping the frame gives \<open>P\<close> back.
\<close>

theorem frame_round_trip:
  "length P < 2 ^ 32 \<Longrightarrow>
     (\<exists>frame. encodeFrame P = Inr frame \<and> length frame = 5 + length P \<and> frame ! 0 = 0
        \<and> unat (be32_value (take 4 (drop 1 frame))) = length P
        \<and> drop 5 frame = P \<and> decodeFrame frame = Inr P)"
  by (simp add: encodeFrame_explicit be32_value_bytes decodeFrame_def Uint8Array_of_buffer_def
        unat_of_nat)

theorem frame_round_trip_witness:
  "length [1, 2, 3 :: byte] < 2 ^ 32
     \<and> (\<exists>frame. encodeFrame [1, 2, 3] = Inr frame \<and> length frame = 5 + length [1, 2, 3 :: byte]
          \<and> frame ! 0 = 0 \<and> unat (be32_value (take 4 (drop 1 frame))) = length [1, 2, 3 :: byte]
          \<and> drop 5 frame = [1, 2, 3] \<and> decodeFrame frame = Inr [1, 2, 3])"
proof -
  have h: "length [1, 2, 3 :: byte] < 2 ^ 32" by simp
  from frame_round_trip [OF h] h show ?thesis by blast
qed

text \<open>
  Claim C6, as amended. Stripping a frame raises \<^verbatim>\<open>RangeError\<close> on every buffer shorter
  than five bytes; on any longer buffer it returns all the bytes after the fifth, whatever
  the length prefix says: the prefix is never read.
\<close>

theorem decodeFrame_ignores_length:
  "(length buf < 5 \<longrightarrow> decodeFrame buf = Inl RangeError)
     \<and> (5 \<le> length buf \<longrightarrow> decodeFrame buf = Inr (drop 5 buf))"
  by (simp add: decodeFrame_def Uint8Array_of_buffer_def)

theorem decodeFrame_ignores_length_witness:
  "length [0, 0, 0 :: byte] < 5 \<and> decodeFrame [0, 0, 0] = Inl RangeError
     \<and> 5 \<le> length [0, 0, 0, 0, 2, 7, 8, 9 :: byte]
     \<and> decodeFrame [0, 0, 0, 0, 2, 7, 8, 9] = Inr [7, 8, 9]"
  using decodeFrame_ignores_length [of "[0, 0, 0]"]
    decodeFrame_ignores_length [of "[0, 0, 0, 0, 2, 7, 8, 9]"]
  by simp

text \<open>
  Claim C6 as stated fails: a buffer whose length prefix is 9 and which holds two bytes after
  the header is stripped to those two bytes without an error.
\<close>

theorem decodeFrame_truncated_counterexample:
  "unat (be32_value (take 4 (drop 1 [0, 0, 0, 0, 9, 1, 2]))) = 9
     \<and> length (drop 5 [0, 0, 0, 0, 9, 1, 2 :: byte]) = 2
     \<and> decodeFrame [0, 0, 0, 0, 9, 1, 2] = Inr [1, 2]"
  by (simp add: be32_value_def decodeFrame_def Uint8Array_of_buffer_def)

section \<open>Properties of the call executor\<close>

lemma no_status_mutating:
  assumes "(servicePath, method) \<in> set mutating_calls"
    and "\<not> includes_str (text_of (body response)) ''grpc-status:0''"
  shows "no_status_branch env servicePath method response = Inl (NoGrpcHeaders (status response))
       \<or> (servicePath = ''hydra_app.RentalService'' \<and> status response = 200
            \<and> try_decode (decode_other env RentChannelResponse) (body response) = None
            \<and> no_status_branch env servicePath method response = Inl (DecodeFailed method))
       \<or> (\<exists>d. no_status_branch env servicePath method response = Inr (Decoded (Opaque_msg d))
              \<and> status response = 200
              \<and> ((servicePath = ''hydra_app.NodeService'' \<and> method = ''OpenChannel''
                    \<and> try_decode (decode_other env OpenChannelResponse) (body response) = Some d)
                 \<or> (servicePath = ''hydra_app.RentalService'' \<and> method = ''RentChannel''
                    \<and> try_decode (decode_other env RentChannelResponse) (body response) = Some d)))"
  using assms
  apply (simp add: mutating_calls_def)
  apply (elim disjE conjE)
  apply (simp_all add: no_status_branch_def structured_blocks_def markets_block_def rental_block_def
     decode_blocks_def text_blocks_def decode_or_continue_def decode_or_throw_def split: option.splits)
  done

text \<open>
  Claim C1, as amended. A mutating call whose response has no \<^verbatim>\<open>grpc-status\<close> header
  and whose body does not contain \<^verbatim>\<open>grpc-status:0\<close> raises, unless the call is
  \<^verbatim>\<open>OpenChannel\<close> or \<^verbatim>\<open>RentChannel\<close>, the HTTP status is 200 and the structured
  decoder accepts the body: then the decoded message is returned. It never returns one of
  the values the client writes itself.
\<close>

theorem mutation_without_marker:
  assumes "(servicePath, method) \<in> set mutating_calls"
    and "exchange env servicePath method request = Inr response"
    and "grpc_status response = None"
    and "\<not> includes_str (text_of (body response)) ''grpc-status:0''"
  shows "grpcCall env servicePath method request = Inl (GrpcCallError (NoGrpcHeaders (status response)))
       \<or> (servicePath = ''hydra_app.RentalService'' \<and> status response = 200
            \<and> try_decode (decode_other env RentChannelResponse) (body response) = None
            \<and> grpcCall env servicePath method request = Inl (GrpcCallError (DecodeFailed method)))
       \<or> (\<exists>d. grpcCall env servicePath method request = Inr (Decoded (Opaque_msg d))
              \<and> status response = 200
              \<and> ((servicePath = ''hydra_app.NodeService'' \<and> method = ''OpenChannel''
                    \<and> try_decode (decode_other env OpenChannelResponse) (body response) = Some d)
                 \<or> (servicePath = ''hydra_app.RentalService'' \<and> method = ''RentChannel''
                    \<and> try_decode (decode_other env RentChannelResponse) (body response) = Some d)))"
proof -
  have call: "grpcCall env servicePath method request =
      (case no_status_branch env servicePath method response of
         Inr v \<Rightarrow> Inr v | Inl e \<Rightarrow> Inl (GrpcCallError e))"
    using assms(2,3) by (simp add: grpcCall_def grpcCall_try_def)
  from no_status_mutating [OF assms(1) assms(4), of env]
  show ?thesis unfolding call by (elim disjE exE conjE) simp_all
qed

lemma quiet_exchange:
  "exchange quiet_env ''hydra_app.OrderbookService'' ''InitMarket'' (Market_request ''btc'' ''usd'')
     = Inr \<lparr>status = 200, grpc_status = None, grpc_message = None, body = [0, 0, 0, 0, 0]\<rparr>"
  by code_simp

theorem mutation_without_marker_witness:
  "(''hydra_app.OrderbookService'', ''InitMarket'') \<in> set mutating_calls
   \<and> exchange quiet_env ''hydra_app.OrderbookService'' ''InitMarket'' (Market_request ''btc'' ''usd'')
       = Inr \<lparr>status = 200, grpc_status = None, grpc_message = None, body = [0, 0, 0, 0, 0]\<rparr>
   \<and> \<not> includes_str (text_of [0, 0, 0, 0, 0]) ''grpc-status:0''
   \<and> grpcCall quiet_env ''hydra_app.OrderbookService'' ''InitMarket'' (Market_request ''btc'' ''usd'')
       = Inl (GrpcCallError (NoGrpcHeaders 200))"
proof -
  have m: "(''hydra_app.OrderbookService'', ''InitMarket'') \<in> set mutating_calls"
    by (simp add: mutating_calls_def)
  have t: "\<not> includes_str (text_of (body \<lparr>status = 200, grpc_status = None, grpc_message = None,
              body = [0, 0, 0, 0, 0]\<rparr>)) ''grpc-status:0''"
    by code_simp
  have s: "grpc_status \<lparr>status = 200, grpc_status = None, grpc_message = None,
              body = [0, 0, 0, 0, 0]\<rparr> = None" by simp
  from mutation_without_marker [OF m quiet_exchange s t]
  have "grpcCall quiet_env ''hydra_app.OrderbookService'' ''InitMarket'' (Market_request ''btc'' ''usd'')
       = Inl (GrpcCallError (NoGrpcHeaders 200))"
    by simp
  with m quiet_exchange t show ?thesis by simp
qed

text \<open>
  Claim C1 as stated fails: \<^verbatim>\<open>OpenChannel\<close>, answered with HTTP 200, no
  \<^verbatim>\<open>grpc-status\<close> header and a body without the marker that the decoder accepts, does
  not raise but returns the decoded message.
\<close>

theorem mutation_decoded_counterexample:
  "(''hydra_app.NodeService'', ''OpenChannel'') \<in> set mutating_calls
   \<and> exchange quiet_env ''hydra_app.NodeService'' ''OpenChannel''
        (Channel_amounts_request (Network EVM ''1'') ''node'' [(''usd'', Exact ''1.5'')] Low_fee)
       = Inr \<lparr>status = 200, grpc_status = None, grpc_message = None, body = [0, 0, 0, 0, 0]\<rparr>
   \<and> \<not> includes_str (text_of [0, 0, 0, 0, 0]) ''grpc-status:0''
   \<and> grpcCall quiet_env ''hydra_app.NodeService'' ''OpenChannel''
        (Channel_amounts_request (Network EVM ''1'') ''node'' [(''usd'', Exact ''1.5'')] Low_fee)
       = Inr (Decoded (Opaque_msg 0))"
  by code_simp

section \<open>Properties of the fan-out\<close>

lemma getNetworks_total: "\<exists>logs0 ns. getNetworks env = (logs0, Inr ns)"
  by (simp add: getNetworks_def split: sum.splits)

lemma getBalances_loop_eq:
  "getBalances_loop env ns (acc, c, logs) =
     (foldl add_balances acc (successful (balances_call env) ns),
      c + length (successful (balances_call env) ns),
      logs @ failures (balances_call env) ns)"
  by (induction ns arbitrary: acc c logs)
     (simp_all add: balances_call_def split: sum.splits option.splits)

lemma getChannels_loop_eq:
  "getChannels_loop env ns (acc, logs) =
     (acc @ merge_channels (successful (channels_call env) ns),
      logs @ failures (channels_call env) ns)"
  by (induction ns arbitrary: acc logs)
     (simp_all add: channels_call_def merge_channels_def split: sum.splits option.splits)

lemma getBalances_eq:
  assumes "getNetworks env = (logs0, Inr ns)"
  shows "getBalances env =
     (if ns = [] then (logs0 @ [Log_no_networks], Inr [])
      else (logs0 @ failures (balances_call env) ns
              @ [Log_summary (length (successful (balances_call env) ns)) (length ns)],
            Inr (merge_balances (successful (balances_call env) ns))))"
  using assms by (simp add: getBalances_def getBalances_loop_eq merge_balances_def)

lemma getChannels_eq:
  assumes "getNetworks env = (logs0, Inr ns)"
  shows "getChannels env =
     (if ns = [] then (logs0 @ [Log_no_networks], Inr [])
      else (logs0 @ failures (channels_call env) ns,
            Inr (merge_channels (successful (channels_call env) ns))))"
  using assms by (simp add: getChannels_def getChannels_try_def getChannels_loop_eq)

lemma failures_mem:
  "n \<in> set ns \<Longrightarrow> f n = Inl e \<Longrightarrow> Log_network_failed n e \<in> set (failures f ns)"
  by (induction ns) (auto split: sum.splits)

text \<open>
  Claim C4. \<^verbatim>\<open>getBalances\<close> and \<^verbatim>\<open>getChannels\<close> never raise; what they return
  is the merge of the results of exactly the networks whose call succeeded, in query order;
  every network whose call raised has its failure in the log; and when no call succeeds
  the result is the empty aggregate.
\<close>

theorem fan_out_isolation:
  "\<exists>logs0 ns. getNetworks env = (logs0, Inr ns)
     \<and> snd (getBalances env) = Inr (merge_balances (successful (balances_call env) ns))
     \<and> snd (getChannels env) = Inr (merge_channels (successful (channels_call env) ns))
     \<and> (\<forall>n \<in> set ns. \<forall>e. balances_call env n = Inl e
            \<longrightarrow> Log_network_failed n e \<in> set (fst (getBalances env)))
     \<and> (\<forall>n \<in> set ns. \<forall>e. channels_call env n = Inl e
            \<longrightarrow> Log_network_failed n e \<in> set (fst (getChannels env)))
     \<and> (successful (balances_call env) ns = [] \<longrightarrow> snd (getBalances env) = Inr [])
     \<and> (successful (channels_call env) ns = [] \<longrightarrow> snd (getChannels env) = Inr [])"
proof -
  obtain logs0 ns where n: "getNetworks env = (logs0, Inr ns)"
    using getNetworks_total by blast
  have b: "snd (getBalances env) = Inr (merge_balances (successful (balances_call env) ns))"
    by (simp add: getBalances_eq [OF n] merge_balances_def)
  have c: "snd (getChannels env) = Inr (merge_channels (successful (channels_call env) ns))"
    by (simp add: getChannels_eq [OF n] merge_channels_def)
  have lb: "\<forall>n \<in> set ns. \<forall>e. balances_call env n = Inl e
            \<longrightarrow> Log_network_failed n e \<in> set (fst (getBalances env))"
    using failures_mem [of _ ns "balances_call env"] by (auto simp: getBalances_eq [OF n])
  have lc: "\<forall>n \<in> set ns. \<forall>e. channels_call env n = Inl e
            \<longrightarrow> Log_network_failed n e \<in> set (fst (getChannels env))"
    using failures_mem [of _ ns "channels_call env"] by (auto simp: getChannels_eq [OF n])
  have zb: "successful (balances_call env) ns = [] \<longrightarrow> snd (getBalances env) = Inr []"
    by (simp add: b merge_balances_def)
  have zc: "successful (channels_call env) ns = [] \<longrightarrow> snd (getChannels env) = Inr []"
    by (simp add: c merge_channels_def)
  from n b c lb lc zb zc show ?thesis by blast
qed

lemma demo_networks_eval:
  "getNetworks demo_env = ([], Inr [Network BITCOIN ''1'', Network EVM ''2'', Network EVM ''3''])"
  by code_simp

lemma down_networks_eval:
  "getNetworks down_env = ([Log_failed ''getNetworks'' (GrpcCallError (FetchError ''Failed to fetch''))], Inr [])"
  by code_simp

theorem fan_out_isolation_witness:
  "balances_call demo_env (Network EVM ''2'') = Inl (GrpcCallError (FetchError ''Failed to fetch''))
   \<and> Log_network_failed (Network EVM ''2'') (GrpcCallError (FetchError ''Failed to fetch''))
        \<in> set (fst (getBalances demo_env))
   \<and> snd (getBalances demo_env) = Inr [(''btc'', Decoded_balance 1), (''usd'', Decoded_balance 3)]
   \<and> snd (getChannels demo_env) = Inr [10, 30, 31]
   \<and> successful (balances_call down_env) [] = []
   \<and> snd (getBalances down_env) = Inr []
   \<and> snd (getChannels down_env) = Inr []"
proof -
  let ?ns = "[Network BITCOIN ''1'', Network EVM ''2'', Network EVM ''3'']"
  let ?e = "GrpcCallError (FetchError ''Failed to fetch'')"
  from fan_out_isolation [of demo_env] demo_networks_eval
  have b: "snd (getBalances demo_env) = Inr (merge_balances (successful (balances_call demo_env) ?ns))"
    and c: "snd (getChannels demo_env) = Inr (merge_channels (successful (channels_call demo_env) ?ns))"
    and l: "\<forall>n \<in> set ?ns. \<forall>e. balances_call demo_env n = Inl e
            \<longrightarrow> Log_network_failed n e \<in> set (fst (getBalances demo_env))"
    by auto
  have f: "balances_call demo_env (Network EVM ''2'') = Inl ?e" by code_simp
  have mb: "merge_balances (successful (balances_call demo_env) ?ns)
              = [(''btc'', Decoded_balance 1), (''usd'', Decoded_balance 3)]" by code_simp
  have mc: "merge_channels (successful (channels_call demo_env) ?ns) = [10, 30, 31]" by code_simp
  from fan_out_isolation [of down_env] down_networks_eval
  have zb: "snd (getBalances down_env) = Inr []" and zc: "snd (getChannels down_env) = Inr []"
    by auto
  from l f have "Log_network_failed (Network EVM ''2'') ?e \<in> set (fst (getBalances demo_env))"
    by simp
  with f b c mb mc zb zc show ?thesis by simp
qed

lemma map_of_js_set: "map_of (js_set t k v) x = (if x = k then Some v else map_of t x)"
  by (induction t) auto

lemma keys_js_set: "x \<in> fst ` set (js_set t k v) \<longleftrightarrow> x = k \<or> x \<in> fst ` set t"
  by (induction t) force+

lemma distinct_js_set: "distinct (map fst t) \<Longrightarrow> distinct (map fst (js_set t k v))"
proof (induction t)
  case Nil
  then show ?case by simp
next
  case (Cons a t)
  obtain k' v' where a: "a = (k', v')" by (cases a)
  show ?case
  proof (cases "k' = k")
    case True
    with Cons.prems a show ?thesis by simp
  next
    case False
    have "k' \<notin> fst ` set (js_set t k v)"
      using Cons.prems a False by (simp add: keys_js_set)
    with Cons a False show ?thesis by simp
  qed
qed

lemma map_of_object_assign:
  "map_of (object_assign t s) x =
     (case entry_of s x of Some w \<Rightarrow> Some w | None \<Rightarrow> map_of t x)"
proof (induction s arbitrary: t)
  case Nil
  then show ?case by (simp add: entry_of_def)
next
  case (Cons a s)
  obtain k v where a: "a = (k, v)" by (cases a)
  show ?case
    by (simp add: a Cons.IH map_of_js_set entry_of_def map_add_def split: option.splits)
qed

lemma distinct_object_assign:
  "distinct (map fst t) \<Longrightarrow> distinct (map fst (object_assign t s))"
  by (induction s arbitrary: t) (auto simp: distinct_js_set)

lemma foldl_add_balances:
  "foldl add_balances acc (successful (balances_call env) ns)
     = foldl object_assign acc (map (reported env) ns)"
  by (induction ns arbitrary: acc) (simp_all add: reported_def split: sum.splits option.splits)

lemma distinct_foldl_assign:
  "distinct (map fst acc) \<Longrightarrow> distinct (map fst (foldl object_assign acc objs))"
  by (induction objs arbitrary: acc) (simp_all add: distinct_object_assign)

lemma last_reporter:
  assumes "j < length objs" and "entry_of (objs ! j) k = Some v"
    and "\<forall>j'. j < j' \<and> j' < length objs \<longrightarrow> entry_of (objs ! j') k = None"
  shows "map_of (foldl object_assign acc objs) k = Some v"
  using assms
proof (induction objs rule: rev_induct)
  case Nil
  then show ?case by simp
next
  case (snoc x xs)
  have m: "map_of (foldl object_assign acc (xs @ [x])) k =
            (case entry_of x k of Some w \<Rightarrow> Some w | None \<Rightarrow> map_of (foldl object_assign acc xs) k)"
    by (simp add: map_of_object_assign)
  show ?case
  proof (cases "j = length xs")
    case True
    with snoc.prems(2) have "entry_of x k = Some v" by simp
    with m show ?thesis by simp
  next
    case False
    with snoc.prems(1) have j: "j < length xs" by simp
    have "entry_of ((xs @ [x]) ! length xs) k = None"
      using snoc.prems(3) j by (metis length_append_singleton lessI)
    then have x: "entry_of x k = None" by simp
    have e: "entry_of (xs ! j) k = Some v"
      using snoc.prems(2) j by (simp add: nth_append)
    have l: "\<forall>j'. j < j' \<and> j' < length xs \<longrightarrow> entry_of (xs ! j') k = None"
    proof (intro allI impI)
      fix j' assume a: "j < j' \<and> j' < length xs"
      then have "entry_of ((xs @ [x]) ! j') k = None" using snoc.prems(3) by simp
      with a show "entry_of (xs ! j') k = None" by (simp add: nth_append)
    qed
    from snoc.IH [OF j e l] m x show ?thesis by simp
  qed
qed

text \<open>
  Claim C10. The record \<^verbatim>\<open>getBalances\<close> returns has at most one entry per asset
  identifier, and for an asset that two networks report, its entry is the one of the
  network queried last among those that report it: the earlier value is replaced.
\<close>

theorem later_network_overwrites:
  "\<exists>logs0 ns logs bal. getNetworks env = (logs0, Inr ns) \<and> getBalances env = (logs, Inr bal)
     \<and> distinct (map fst bal)
     \<and> (\<forall>i j k vi vj.
           i < j \<and> j < length ns
           \<and> entry_of (reported env (ns ! i)) k = Some vi
           \<and> entry_of (reported env (ns ! j)) k = Some vj
           \<and> (\<forall>j'. j < j' \<and> j' < length ns \<longrightarrow> entry_of (reported env (ns ! j')) k = None)
           \<longrightarrow> map_of bal k = Some vj)"
proof -
  obtain logs0 ns where n: "getNetworks env = (logs0, Inr ns)"
    using getNetworks_total by blast
  define bal where "bal = foldl object_assign [] (map (reported env) ns)"
  have m: "merge_balances (successful (balances_call env) ns) = bal"
    by (simp add: merge_balances_def foldl_add_balances bal_def)
  have g: "\<exists>logs. getBalances env = (logs, Inr bal)"
    by (cases "ns = []") (simp_all add: getBalances_eq [OF n] m, simp add: bal_def)
  have d: "distinct (map fst bal)"
    unfolding bal_def by (rule distinct_foldl_assign) simp
  have w: "\<forall>i j k vi vj.
           i < j \<and> j < length ns
           \<and> entry_of (reported env (ns ! i)) k = Some vi
           \<and> entry_of (reported env (ns ! j)) k = Some vj
           \<and> (\<forall>j'. j < j' \<and> j' < length ns \<longrightarrow> entry_of (reported env (ns ! j')) k = None)
           \<longrightarrow> map_of bal k = Some vj"
  proof (intro allI impI)
    fix i j k vi vj
    assume a: "i < j \<and> j < length ns
           \<and> entry_of (reported env (ns ! i)) k = Some vi
           \<and> entry_of (reported env (ns ! j)) k = Some vj
           \<and> (\<forall>j'. j < j' \<and> j' < length ns \<longrightarrow> entry_of (reported env (ns ! j')) k = None)"
    show "map_of bal k = Some vj"
      unfolding bal_def
      by (rule last_reporter [where j = j]) (use a in simp_all)
  qed
  from n g d w show ?thesis by blast
qed

theorem later_network_overwrites_witness:
  "entry_of (reported demo_env (Network BITCOIN ''1'')) ''usd'' = Some (Decoded_balance 2)
   \<and> entry_of (reported demo_env (Network EVM ''3'')) ''usd'' = Some (Decoded_balance 3)
   \<and> snd (getBalances demo_env) = Inr [(''btc'', Decoded_balance 1), (''usd'', Decoded_balance 3)]
   \<and> map_of [(''btc'', Decoded_balance 1), (''usd'', Decoded_balance (3 :: nat))] ''usd''
        = Some (Decoded_balance 3)"
proof -
  let ?ns = "[Network BITCOIN ''1'', Network EVM ''2'', Network EVM ''3'']"
  have e1: "entry_of (reported demo_env (?ns ! 0)) ''usd'' = Some (Decoded_balance 2)"
    by code_simp
  have e3: "entry_of (reported demo_env (?ns ! 2)) ''usd'' = Some (Decoded_balance 3)"
    by code_simp
  have g: "snd (getBalances demo_env) = Inr [(''btc'', Decoded_balance 1), (''usd'', Decoded_balance 3)]"
    by code_simp
  from later_network_overwrites [of demo_env] demo_networks_eval
  obtain logs bal where b: "getBalances demo_env = (logs, Inr bal)"
    and w: "\<forall>i j k vi vj.
           i < j \<and> j < length ?ns
           \<and> entry_of (reported demo_env (?ns ! i)) k = Some vi
           \<and> entry_of (reported demo_env (?ns ! j)) k = Some vj
           \<and> (\<forall>j'. j < j' \<and> j' < length ?ns \<longrightarrow> entry_of (reported demo_env (?ns ! j')) k = None)
           \<longrightarrow> map_of bal k = Some vj"
    by auto
  have nl: "\<forall>j'. 2 < j' \<and> j' < length ?ns \<longrightarrow> entry_of (reported demo_env (?ns ! j')) ''usd'' = None"
    by (intro allI impI) (elim conjE, simp)
  have lt: "(0 :: nat) < 2 \<and> 2 < length ?ns" by simp
  have "map_of bal ''usd'' = Some (Decoded_balance 3)"
    by (rule w [rule_format, of 0 2 "''usd''" "Decoded_balance 2" "Decoded_balance 3"])
       (intro conjI lt [THEN conjunct1] lt [THEN conjunct2] e1 e3 nl)
  moreover from b g have "bal = [(''btc'', Decoded_balance 1), (''usd'', Decoded_balance 3)]"
    by simp
  ultimately show ?thesis using e1 e3 g by simp
qed

lemma reported_unrecognizable:
  assumes "exchange env ''hydra_app.WalletService'' ''GetBalances'' (Network_request n) = Inr response"
    and "status response = 200" and "grpc_status response = None"
    and "no_recognizable_asset env (body response)"
  shows "balances_call env n = Inl (GrpcCallError (NoGrpcHeaders 200))
       \<or> balances_call env n = Inr Balances_default
       \<or> balances_call env n = Inr (Decoded (Balances_msg []))"
  using assms
  by (simp add: balances_call_def grpcCall_def grpcCall_try_def no_status_branch_def
        structured_blocks_def markets_block_def rental_block_def decode_blocks_def
        decode_or_continue_def text_blocks_def parse_balances_text_def no_recognizable_asset_def
      split: option.splits)

lemma foldl_assign_empty:
  "\<forall>obj \<in> set objs. obj = [] \<Longrightarrow> foldl object_assign acc objs = acc"
  by (induction objs arbitrary: acc) simp_all

text \<open>
  Claim C8, as amended. When the endpoint answers \<^verbatim>\<open>GetBalances\<close> for every
  configured network with HTTP 200, no \<^verbatim>\<open>grpc-status\<close> header and a body in which
  the structured decoder reads no balance entry and the asset pattern matches nowhere,
  \<^verbatim>\<open>getBalances\<close> returns the empty record and does not raise: each call either
  gives an empty record or raises inside \<^verbatim>\<open>grpcCall\<close>, where \<^verbatim>\<open>getBalances\<close>
  catches it.
\<close>

theorem balances_unrecognizable_body:
  assumes "getNetworks env = (logs0, Inr ns)"
    and "\<forall>n \<in> set ns. \<exists>response.
           exchange env ''hydra_app.WalletService'' ''GetBalances'' (Network_request n) = Inr response
           \<and> status response = 200 \<and> grpc_status response = None
           \<and> no_recognizable_asset env (body response)"
  shows "snd (getBalances env) = Inr []
       \<and> (\<forall>n \<in> set ns. balances_call env n = Inl (GrpcCallError (NoGrpcHeaders 200))
             \<or> balances_call env n = Inr Balances_default
             \<or> balances_call env n = Inr (Decoded (Balances_msg [])))"
proof -
  have c: "\<forall>n \<in> set ns. balances_call env n = Inl (GrpcCallError (NoGrpcHeaders 200))
             \<or> balances_call env n = Inr Balances_default
             \<or> balances_call env n = Inr (Decoded (Balances_msg []))"
    using assms(2) reported_unrecognizable by blast
  then have "\<forall>n \<in> set ns. reported env n = []"
    by (auto simp: reported_def)
  then have "foldl object_assign [] (map (reported env) ns) = []"
    by (intro foldl_assign_empty) simp
  then have "merge_balances (successful (balances_call env) ns) = []"
    by (simp add: merge_balances_def foldl_add_balances)
  then have "snd (getBalances env) = Inr []"
    by (simp add: getBalances_eq [OF assms(1)])
  with c show ?thesis by blast
qed

lemma quiet_networks_eval:
  "getNetworks quiet_env = ([], Inr [Network BITCOIN ''1'', Network EVM ''2'', Network EVM ''3''])"
  by code_simp

theorem balances_unrecognizable_body_witness:
  "getNetworks quiet_env = ([], Inr [Network BITCOIN ''1'', Network EVM ''2'', Network EVM ''3''])
   \<and> exchange quiet_env ''hydra_app.WalletService'' ''GetBalances'' (Network_request (Network EVM ''2''))
        = Inr \<lparr>status = 200, grpc_status = None, grpc_message = None, body = [0, 0, 0, 0, 0]\<rparr>
   \<and> no_recognizable_asset quiet_env [0, 0, 0, 0, 0]
   \<and> snd (getBalances quiet_env) = Inr []"
proof -
  let ?r = "\<lparr>status = 200, grpc_status = None, grpc_message = None, body = [0, 0, 0, 0, 0]\<rparr>"
  have x: "\<forall>n \<in> set [Network BITCOIN ''1'', Network EVM ''2'', Network EVM ''3''].
        exchange quiet_env ''hydra_app.WalletService'' ''GetBalances'' (Network_request n) = Inr ?r"
    by code_simp
  have a: "no_recognizable_asset quiet_env [0, 0, 0, 0, 0]" by code_simp
  have h: "\<forall>n \<in> set [Network BITCOIN ''1'', Network EVM ''2'', Network EVM ''3'']. \<exists>response.
           exchange quiet_env ''hydra_app.WalletService'' ''GetBalances'' (Network_request n) = Inr response
           \<and> status response = 200 \<and> grpc_status response = None
           \<and> no_recognizable_asset quiet_env (body response)"
    using x a by simp
  from balances_unrecognizable_body [OF quiet_networks_eval h]
  have "snd (getBalances quiet_env) = Inr []" by blast
  with quiet_networks_eval x a show ?thesis by simp
qed

text \<open>
  Claim C8 as stated fails: no body below contains the asset pattern, but the structured
  decoder is tried first, and the balances it reads from the bodies of networks 1 and 3 are
  returned.
\<close>

theorem balances_decoded_counterexample:
  "getNetworks echo_env = ([], Inr [Network BITCOIN ''1'', Network EVM ''2'', Network EVM ''3''])
   \<and> exchange echo_env ''hydra_app.WalletService'' ''GetBalances''
        (Network_request (Network BITCOIN ''1''))
       = Inr \<lparr>status = 200, grpc_status = None, grpc_message = None, body = [0, 0, 0, 0, 0, 49]\<rparr>
   \<and> exchange echo_env ''hydra_app.WalletService'' ''GetBalances''
        (Network_request (Network EVM ''2''))
       = Inr \<lparr>status = 200, grpc_status = None, grpc_message = None, body = [0, 0, 0, 0, 0, 50]\<rparr>
   \<and> exchange echo_env ''hydra_app.WalletService'' ''GetBalances''
        (Network_request (Network EVM ''3''))
       = Inr \<lparr>status = 200, grpc_status = None, grpc_message = None, body = [0, 0, 0, 0, 0, 51]\<rparr>
   \<and> match_assetId (text_of [0, 0, 0, 0, 0, 49]) = None
   \<and> match_assetId (text_of [0, 0, 0, 0, 0, 50]) = None
   \<and> match_assetId (text_of [0, 0, 0, 0, 0, 51]) = None
   \<and> snd (getBalances echo_env) = Inr [(''btc'', Decoded_balance 1), (''usd'', Decoded_balance 3)]"
  by code_simp

section \<open>Properties of the per-domain operations\<close>




section \<open>Properties of the cache invalidation\<close>

text \<open>
  Claim C2, as amended. While the hook is mounted, an event with a channel update makes the
  handler invalidate the keys \<^verbatim>\<open>['hydra','channels']\<close> and
  \<^verbatim>\<open>['hydra','balances']\<close> at once, and it schedules nothing; after unmounting the
  handler does nothing. The invalidations delayed by 2 and 5 seconds are those of the key
  \<^verbatim>\<open>['hydra','peers']\<close> after a successful \<^verbatim>\<open>connectToPeer\<close>.
\<close>

theorem channel_update_invalidation:
  "(channelUpdate event \<noteq> None \<longrightarrow>
      (\<exists>more. invalidated (handleNodeEvent True event st)
                = invalidated st @ [[''hydra'', ''channels''], [''hydra'', ''balances'']] @ more)
      \<and> timers (handleNodeEvent True event st) = timers st)
   \<and> handleNodeEvent False event st = st
   \<and> timers (connectToPeer_onSuccess st)
       = timers st @ [(2000, Invalidate [''hydra'', ''peers'']),
                      (5000, Invalidate [''hydra'', ''peers''])]"
  by (simp add: handleNodeEvent_def invalidateQueries_def setTimeout_def connectToPeer_onSuccess_def
        Let_def)

theorem channel_update_invalidation_witness:
  "channelUpdate demo_event \<noteq> None
   \<and> invalidated (handleNodeEvent True demo_event demo_ui)
       = [[''hydra'', ''channels''], [''hydra'', ''balances'']]
   \<and> timers (handleNodeEvent True demo_event demo_ui) = timers demo_ui"
proof -
  have c: "channelUpdate demo_event \<noteq> None" by (simp add: demo_event_def)
  have i: "invalidated (handleNodeEvent True demo_event demo_ui)
       = [[''hydra'', ''channels''], [''hydra'', ''balances'']]"
    by (simp add: handleNodeEvent_def invalidateQueries_def demo_event_def demo_ui_def)
  from channel_update_invalidation [of demo_event demo_ui] c
  have "timers (handleNodeEvent True demo_event demo_ui) = timers demo_ui" by blast
  with c i show ?thesis by simp
qed

text \<open>
  Claim C2 as stated fails: after a channel update has been handled no timer is pending.
\<close>

theorem channel_update_no_timers_counterexample:
  "channelUpdate demo_event = Some ''channel-1''
   \<and> timers demo_ui = []
   \<and> timers (handleNodeEvent True demo_event demo_ui) = []"
  by (simp add: handleNodeEvent_def invalidateQueries_def demo_event_def demo_ui_def)

section \<open>Properties of the stream subscriber\<close>

lemma deliver_read_failed:
  assumes "mounted h" and "i < length (subs h)"
    and "isActive (subs h ! i)" and "\<not> cancelled (subs h ! i)" and "\<not> finished (subs h ! i)"
  shows "deliver dec i (Read_failed m) h =
           h\<lparr>subs := (subs h)[i := (subs h ! i)\<lparr>finished := True\<rparr>],
             ui := (ui h)\<lparr>isConnected := False, timers := timers (ui h) @ [(5000, Reconnect)]\<rparr>,
             calls := calls h @ [Call_onError (StreamReadError m)]\<rparr>"
  using assms
  by (simp add: deliver_def processStream_step_def dispatch_all_def handleError_def setTimeout_def)

text \<open>
  Claim C3, as amended. On an active subscription a failed read makes the subscriber call
  \<^verbatim>\<open>onError\<close> once and end its loop; in the mounted node-event hook that call marks
  the stream disconnected and schedules exactly one reconnect after 5000 ms. A chunk the
  decoder rejects is logged as a warning: \<^verbatim>\<open>onError\<close> is not called and the loop
  goes on.
\<close>

theorem stream_error_handling:
  "(isActive sub \<and> \<not> cancelled sub \<and> \<not> finished sub \<longrightarrow>
      processStream_step dec True sub (Read_failed m)
        = (sub\<lparr>finished := True\<rparr>, [Call_onError (StreamReadError m)])
      \<and> (dec (Uint8Array_of_typed_array chunk 5) = None \<longrightarrow>
           processStream_step dec True sub (Chunk chunk) = (sub, [Warn_decode_failed])))
   \<and> (mounted h \<and> i < length (subs h)
        \<and> isActive (subs h ! i) \<and> \<not> cancelled (subs h ! i) \<and> \<not> finished (subs h ! i) \<longrightarrow>
      timers (ui (deliver dec i (Read_failed m) h)) = timers (ui h) @ [(5000, Reconnect)]
      \<and> \<not> isConnected (ui (deliver dec i (Read_failed m) h))
      \<and> calls (deliver dec i (Read_failed m) h) = calls h @ [Call_onError (StreamReadError m)]
      \<and> finished (subs (deliver dec i (Read_failed m) h) ! i))"
proof (intro conjI impI)
  assume a: "isActive sub \<and> \<not> cancelled sub \<and> \<not> finished sub"
  then show "processStream_step dec True sub (Read_failed m)
        = (sub\<lparr>finished := True\<rparr>, [Call_onError (StreamReadError m)])"
    by (simp add: processStream_step_def)
  assume "dec (Uint8Array_of_typed_array chunk 5) = None"
  with a show "processStream_step dec True sub (Chunk chunk) = (sub, [Warn_decode_failed])"
    by (simp add: processStream_step_def)
next
  assume h: "mounted h \<and> i < length (subs h)
        \<and> isActive (subs h ! i) \<and> \<not> cancelled (subs h ! i) \<and> \<not> finished (subs h ! i)"
  then have d: "deliver dec i (Read_failed m) h =
           h\<lparr>subs := (subs h)[i := (subs h ! i)\<lparr>finished := True\<rparr>],
             ui := (ui h)\<lparr>isConnected := False, timers := timers (ui h) @ [(5000, Reconnect)]\<rparr>,
             calls := calls h @ [Call_onError (StreamReadError m)]\<rparr>"
    by (intro deliver_read_failed) simp_all
  show "timers (ui (deliver dec i (Read_failed m) h)) = timers (ui h) @ [(5000, Reconnect)]"
    by (simp add: d)
  show "\<not> isConnected (ui (deliver dec i (Read_failed m) h))"
    by (simp add: d)
  show "calls (deliver dec i (Read_failed m) h) = calls h @ [Call_onError (StreamReadError m)]"
    by (simp add: d)
  show "finished (subs (deliver dec i (Read_failed m) h) ! i)"
    using h by (simp add: d)
qed

lemma mount_eval:
  "mount (Stream_response 200 True) =
     (\<lparr>mounted = True,
       ui = \<lparr>lastEvent = None, isConnected = True, invalidated = [], timers = []\<rparr>,
       subs = [active_subscription], unsubscribe_slot = Some 0, calls = [],
       captured = None\<rparr> :: string node_hook)"
  by (simp add: mount_def connectToEvents_def subscribeToEvents_def open_stream_def
        active_subscription_def)

theorem stream_error_handling_witness:
  "isActive active_subscription \<and> \<not> cancelled active_subscription \<and> \<not> finished active_subscription
   \<and> processStream_step demo_decode_event True active_subscription (Read_failed ''reset'')
       = (active_subscription\<lparr>finished := True\<rparr>, [Call_onError (StreamReadError ''reset'')])
   \<and> demo_decode_event (Uint8Array_of_typed_array [0, 0, 0, 0, 1, 255] 5) = None
   \<and> processStream_step demo_decode_event True active_subscription (Chunk [0, 0, 0, 0, 1, 255])
       = (active_subscription, [Warn_decode_failed])
   \<and> timers (ui (deliver demo_decode_event 0 (Read_failed ''reset'') (mount (Stream_response 200 True))))
       = [(5000, Reconnect)]
   \<and> calls (deliver demo_decode_event 0 (Read_failed ''reset'') (mount (Stream_response 200 True)))
       = [Call_onError (StreamReadError ''reset'')]"
proof -
  let ?h = "mount (Stream_response 200 True) :: string node_hook"
  have a: "isActive active_subscription \<and> \<not> cancelled active_subscription
             \<and> \<not> finished active_subscription"
    by (simp add: active_subscription_def)
  have d: "demo_decode_event (Uint8Array_of_typed_array [0, 0, 0, 0, 1, 255] 5) = None"
    by (simp add: Uint8Array_of_typed_array_def)
  have hh: "mounted ?h \<and> 0 < length (subs ?h)
        \<and> isActive (subs ?h ! 0) \<and> \<not> cancelled (subs ?h ! 0) \<and> \<not> finished (subs ?h ! 0)"
    by (simp add: mount_eval active_subscription_def)
  note t = stream_error_handling [of active_subscription demo_decode_event "''reset''"
      "[0, 0, 0, 0, 1, 255]" ?h 0]
  from t a d have s: "processStream_step demo_decode_event True active_subscription (Read_failed ''reset'')
       = (active_subscription\<lparr>finished := True\<rparr>, [Call_onError (StreamReadError ''reset'')])"
    and w: "processStream_step demo_decode_event True active_subscription (Chunk [0, 0, 0, 0, 1, 255])
       = (active_subscription, [Warn_decode_failed])"
    by blast+
  from t hh have "timers (ui (deliver demo_decode_event 0 (Read_failed ''reset'') ?h))
         = timers (ui ?h) @ [(5000, Reconnect)]"
    and "calls (deliver demo_decode_event 0 (Read_failed ''reset'') ?h)
         = calls ?h @ [Call_onError (StreamReadError ''reset'')]"
    by blast+
  then have "timers (ui (deliver demo_decode_event 0 (Read_failed ''reset'') ?h)) = [(5000, Reconnect)]"
    and "calls (deliver demo_decode_event 0 (Read_failed ''reset'') ?h)
         = [Call_onError (StreamReadError ''reset'')]"
    by (simp_all add: mount_eval)
  with a d s w show ?thesis by simp
qed

text \<open>
  Claim C3 as stated fails: on a decode error of an active node-event subscription
  \<^verbatim>\<open>onError\<close> is not called and no reconnect is scheduled.
\<close>

theorem decode_error_swallowed_counterexample:
  "isActive active_subscription \<and> \<not> cancelled active_subscription \<and> \<not> finished active_subscription
   \<and> demo_decode_event (Uint8Array_of_typed_array [0, 0, 0, 0, 1, 255] 5) = None
   \<and> processStream_step demo_decode_event True active_subscription (Chunk [0, 0, 0, 0, 1, 255])
       = (active_subscription, [Warn_decode_failed])
   \<and> calls (deliver demo_decode_event 0 (Chunk [0, 0, 0, 0, 1, 255]) (mount (Stream_response 200 True))) = []
   \<and> timers (ui (deliver demo_decode_event 0 (Chunk [0, 0, 0, 0, 1, 255]) (mount (Stream_response 200 True)))) = []"
  by (simp add: mount_eval deliver_def processStream_step_def dispatch_all_def
        active_subscription_def Uint8Array_of_typed_array_def)








end
